theory Spec2Isabelle
  imports Complex_Main "HOL-Library.Char_ord" "HOL-Library.List_Lexorder"
begin

section \<open>Data model\<close>

text \<open>
  The four tables of \<^verbatim>\<open>src/lib/supabase.ts\<close> (type \<^verbatim>\<open>Database\<close>, the \<^verbatim>\<open>Row\<close> types).
  A table is a list of rows: no uniqueness of keys is built into the model, so a
  \<^verbatim>\<open>WHERE id = x\<close> touches every row with that id, as the SQL does. Nullable columns are
  options. Slot counts and zone numbers are integer columns; coordinates and prices are
  numbers that the modelled code only compares and stores, taken as reals.
\<close>

type_synonym uuid = string
type_synonym timestamp = string

datatype user_role = user | location_owner | super_admin

datatype application_status = pending | approved | rejected

datatype zone_status = available | full | maintenance

record profile =
  prof_id :: uuid
  prof_email :: "string option"
  prof_full_name :: "string option"
  prof_phone :: "string option"
  prof_avatar_url :: "string option"
  prof_user_role :: user_role
  prof_created_at :: timestamp
  prof_updated_at :: timestamp

record owner_application =
  app_id :: uuid
  app_user_id :: uuid
  app_contact_person :: string
  app_phone :: string
  app_email :: string
  app_justification :: string
  app_status :: application_status
  app_reviewed_by :: "uuid option"
  app_reviewed_at :: "timestamp option"
  app_admin_notes :: "string option"
  app_created_at :: timestamp
  app_updated_at :: timestamp

record parking_location =
  loc_id :: uuid
  loc_name :: string
  loc_address :: string
  loc_lat :: real
  loc_lng :: real
  loc_owner_user_id :: uuid
  loc_total_zones :: int
  loc_description :: "string option"
  loc_created_at :: timestamp
  loc_updated_at :: timestamp

record parking_zone =
  zone_id :: uuid
  zone_location_id :: uuid
  zone_name :: string
  zone_number :: int
  zone_lat :: real
  zone_lng :: real
  zone_total_slots :: int
  zone_available_slots :: int
  zone_is_full :: bool
  zone_status :: zone_status
  zone_cost_per_hour :: real
  zone_created_at :: timestamp
  zone_updated_at :: timestamp

record database =
  profiles :: "profile list"
  owner_applications :: "owner_application list"
  parking_locations :: "parking_location list"
  parking_zones :: "parking_zone list"

text \<open>
  What a store request answers besides data: \<^verbatim>\<open>{ error }\<close> with a code and a message.
  Whether a request fails for a reason outside the tables (transport, permissions) is
  not decided by the client code, so each handler takes the answer of each request it
  issues as an argument; a request that answers with an error changes nothing.
\<close>

record pg_error =
  code :: string
  message :: string

datatype toast = toast_error string | toast_success string

section \<open>Route guards and role checks\<close>

text \<open>
  \<^verbatim>\<open>supabase.from('profiles').select('user_role').eq('id', uid).single()\<close> followed by
  \<^verbatim>\<open>data?.user_role ?? null\<close>: \<^verbatim>\<open>single()\<close> gives no data unless exactly one row matches.
\<close>

definition select_user_role :: "database \<Rightarrow> uuid \<Rightarrow> user_role option" where
  "select_user_role d uid =
     (case filter (\<lambda>p. prof_id p = uid) (profiles d) of
        [p] \<Rightarrow> Some (prof_user_role p)
      | _ \<Rightarrow> None)"

datatype route_view = Loading | Navigate string | Children

text \<open>\<^verbatim>\<open>src/components/OwnerRoute.tsx\<close>, the render part (lines 21 to 32).\<close>

definition OwnerRoute :: "uuid option \<Rightarrow> bool \<Rightarrow> bool \<Rightarrow> user_role option \<Rightarrow> route_view" where
  "OwnerRoute usr loading checking role =
     (if loading \<or> checking then Loading
      else if usr = None then Navigate ''/login''
      else if role \<noteq> Some location_owner \<and> role \<noteq> Some super_admin then Navigate ''/''
      else Children)"

datatype 'a fetched = Skipped | Denied string | Loaded 'a

text \<open>
  \<^verbatim>\<open>fetchRequests\<close> of \<^verbatim>\<open>AdminRequestsPanel.tsx\<close> (lines 48 to 71): the role check and
  the query for the pending applications. The order of the rows
  (\<^verbatim>\<open>created_at\<close> descending) and the join with the applicants' names are display matters
  and are left out.
\<close>

definition fetchRequests :: "database \<Rightarrow> uuid option \<Rightarrow> owner_application list fetched" where
  "fetchRequests d usr =
     (case usr of
        None \<Rightarrow> Skipped
      | Some uid \<Rightarrow>
          if select_user_role d uid \<noteq> Some super_admin
          then Denied ''Access denied: Super admin privileges required''
          else Loaded (filter (\<lambda>a. app_status a = pending) (owner_applications d)))"

text \<open>
  \<^verbatim>\<open>fetchAdminLocations\<close> of \<^verbatim>\<open>AdminDashboard\<close> (\<^verbatim>\<open>Dashboard.tsx\<close>, lines 670 to 696):
  a super admin's query has no owner filter, an owner's query is restricted to the
  rows they own. The query is chosen first and run afterwards; the order of the rows
  (by name) is left out.
\<close>

datatype location_query = baseQuery | baseQuery_eq_owner_user_id uuid

definition fetchAdminLocations_query :: "database \<Rightarrow> uuid option \<Rightarrow> location_query fetched" where
  "fetchAdminLocations_query d usr =
     (case usr of
        None \<Rightarrow> Skipped
      | Some uid \<Rightarrow>
          (case select_user_role d uid of
             None \<Rightarrow> Denied ''Access denied: Admin privileges required''
           | Some r \<Rightarrow>
               if r \<noteq> location_owner \<and> r \<noteq> super_admin
               then Denied ''Access denied: Admin privileges required''
               else if r = super_admin then Loaded baseQuery
               else Loaded (baseQuery_eq_owner_user_id uid)))"

fun run_location_query :: "database \<Rightarrow> location_query \<Rightarrow> parking_location list" where
  "run_location_query d baseQuery = parking_locations d"
| "run_location_query d (baseQuery_eq_owner_user_id uid) =
     filter (\<lambda>l. loc_owner_user_id l = uid) (parking_locations d)"

definition fetchAdminLocations :: "database \<Rightarrow> uuid option \<Rightarrow> parking_location list fetched" where
  "fetchAdminLocations d usr =
     (case fetchAdminLocations_query d usr of
        Skipped \<Rightarrow> Skipped
      | Denied m \<Rightarrow> Denied m
      | Loaded q \<Rightarrow> Loaded (run_location_query d q))"

text \<open>
  The capability table in the words of the specification (section 4.1), to compare the
  guards above with.
\<close>

datatype capability = manage_own_locations | manage_all_locations | review_applications | view_map

fun can_spec :: "user_role \<Rightarrow> capability \<Rightarrow> bool" where
  "can_spec r manage_own_locations = (r = location_owner \<or> r = super_admin)"
| "can_spec r manage_all_locations = (r = super_admin)"
| "can_spec r review_applications = (r = super_admin)"
| "can_spec r view_map = True"

section \<open>Owner application workflow\<close>

text \<open>
  The stored procedure \<^verbatim>\<open>process_owner_application\<close> (the SQL text is in
  \<^verbatim>\<open>DEPLOYMENT_CHECKLIST.md\<close>, lines 30 to 78), statement by statement on a working
  copy of the tables. \<open>auth_uid\<close> is \<^verbatim>\<open>auth.uid()\<close>, null for an anonymous caller;
  \<open>now\<close> is \<^verbatim>\<open>NOW()\<close>. The result is the working copy at the point where the body
  stops, with the exception raised (\<open>Inl\<close>) or the value returned (\<open>Inr\<close>).
  \<^verbatim>\<open>SELECT ... INTO\<close> keeps the first row found. \<open>set_decision\<close> and
  \<open>set_location_owner\<close> are the \<^verbatim>\<open>SET\<close> lists of the two updates.
\<close>

definition set_decision ::
  "uuid option \<Rightarrow> timestamp \<Rightarrow> bool \<Rightarrow> string option \<Rightarrow> owner_application \<Rightarrow> owner_application" where
  "set_decision reviewer_id now p_approve p_admin_notes r =
     r\<lparr>app_status := (if p_approve then approved else rejected),
       app_reviewed_by := reviewer_id,
       app_reviewed_at := Some now,
       app_admin_notes := p_admin_notes,
       app_updated_at := now\<rparr>"

definition set_location_owner :: "timestamp \<Rightarrow> profile \<Rightarrow> profile" where
  "set_location_owner now p = p\<lparr>prof_user_role := location_owner, prof_updated_at := now\<rparr>"

definition process_owner_application ::
  "database \<Rightarrow> uuid option \<Rightarrow> timestamp \<Rightarrow> uuid \<Rightarrow> bool \<Rightarrow> string option
     \<Rightarrow> database \<times> (string + bool)" where
  "process_owner_application d auth_uid now p_application_id p_approve p_admin_notes =
     (let reviewer_id = auth_uid in
      if \<not> (\<exists>p \<in> set (profiles d). Some (prof_id p) = reviewer_id \<and> prof_user_role p = super_admin)
      then (d, Inl ''Unauthorized: Only super admins can process applications'')
      else
        (case find (\<lambda>a. app_id a = p_application_id \<and> app_status a = pending)
                (owner_applications d) of
           None \<Rightarrow> (d, Inl ''Application not found or already processed'')
         | Some a \<Rightarrow>
             (let applicant_user_id = app_user_id a;
                  d1 = d\<lparr>owner_applications :=
                         map (\<lambda>r. if app_id r = p_application_id
                                  then set_decision reviewer_id now p_approve p_admin_notes r
                                  else r)
                             (owner_applications d)\<rparr>;
                  d2 = (if p_approve
                        then d1\<lparr>profiles :=
                                 map (\<lambda>p. if prof_id p = applicant_user_id
                                          then set_location_owner now p
                                          else p)
                                     (profiles d1)\<rparr>
                        else d1)
              in (d2, Inr True))))"

text \<open>
  \<^verbatim>\<open>supabase.rpc('process_owner_application', ...)\<close>: one request, and the store runs a
  function call inside one transaction. A call that raises is rolled back, so the
  tables stay as they were; a call that returns commits its working copy.
\<close>

definition rpc_process_owner_application ::
  "database \<Rightarrow> uuid option \<Rightarrow> timestamp \<Rightarrow> uuid \<Rightarrow> bool \<Rightarrow> string option
     \<Rightarrow> database \<times> (string + bool)" where
  "rpc_process_owner_application d auth_uid now p_application_id p_approve p_admin_notes =
     (case process_owner_application d auth_uid now p_application_id p_approve p_admin_notes of
        (w, Inl msg) \<Rightarrow> (d, Inl msg)
      | (w, Inr b) \<Rightarrow> (w, Inr b))"

datatype review_action = approve | reject

record review_dialog =
  dlg_open :: bool
  dlg_request :: "owner_application option"
  dlg_action :: review_action

text \<open>
  \<^verbatim>\<open>handleReviewRequest\<close> of \<^verbatim>\<open>AdminRequestsPanel.tsx\<close> (lines 105 to 130). The caller
  of the procedure is the signed-in user; \<^verbatim>\<open>reviewMessage || null\<close> turns the empty
  message into null.
\<close>

definition handleReviewRequest ::
  "database \<Rightarrow> review_dialog \<Rightarrow> string \<Rightarrow> uuid option \<Rightarrow> timestamp \<Rightarrow> database \<times> toast option" where
  "handleReviewRequest d reviewDialog reviewMessage usr now =
     (case (dlg_request reviewDialog, usr) of
        (Some request, Some uid) \<Rightarrow>
          (let approve_flag = (dlg_action reviewDialog = approve);
               (d', res) = rpc_process_owner_application d (Some uid) now (app_id request)
                             approve_flag
                             (if reviewMessage = [] then None else Some reviewMessage)
           in (case res of
                 Inl msg \<Rightarrow>
                   (d', Some (toast_error (''Failed to ''
                          @ (if approve_flag then ''approve'' else ''reject'')
                          @ '' request: '' @ msg)))
               | Inr _ \<Rightarrow>
                   (d', Some (toast_success (''Request ''
                          @ (if approve_flag then ''approved'' else ''rejected'')
                          @ '' successfully!'')))))
      | _ \<Rightarrow> (d, None))"

text \<open>What a reader of the tables sees of one application and of one user's role.\<close>

definition status_of :: "database \<Rightarrow> uuid \<Rightarrow> application_status option" where
  "status_of d aid = map_option app_status (find (\<lambda>a. app_id a = aid) (owner_applications d))"

definition pending_applicant :: "database \<Rightarrow> uuid \<Rightarrow> uuid option" where
  "pending_applicant d aid =
     map_option app_user_id
       (find (\<lambda>a. app_id a = aid \<and> app_status a = pending) (owner_applications d))"

text \<open>
  \<^verbatim>\<open>OwnerApplicationButton\<close> (unnamed/part_002, lines 359 to 538): the form, the query
  for the user's latest application, the submission and what is rendered.
\<close>

record application_form =
  form_contact_person :: string
  form_phone :: string
  form_email :: string
  form_justification :: string

text \<open>
  \<^verbatim>\<open>checkExistingApplication\<close> (lines 377 to 400): the user's applications, newest first,
  at most one row; any error of the request leaves \<^verbatim>\<open>application\<close> null.
\<close>

definition checkExistingApplication ::
  "database \<Rightarrow> uuid option \<Rightarrow> pg_error option \<Rightarrow> owner_application option" where
  "checkExistingApplication d usr err =
     (case usr of
        None \<Rightarrow> None
      | Some uid \<Rightarrow>
          (case err of
             Some e \<Rightarrow> None
           | None \<Rightarrow>
               (case rev (sort_key app_created_at
                            (filter (\<lambda>a. app_user_id a = uid) (owner_applications d))) of
                  [] \<Rightarrow> None
                | a # _ \<Rightarrow> Some a)))"

text \<open>
  Modelled from the spec: the table definition (\<^verbatim>\<open>src/lib/database.sql\<close>) is not among
  the sources, so the columns that the insert of \<^verbatim>\<open>submitApplication\<close> leaves out get
  the values of section 4.2 (``creates row with status=pending'') and of a row nobody
  has reviewed; the new id and the time are the store's, passed in.
\<close>

definition insert_owner_application ::
  "database \<Rightarrow> uuid \<Rightarrow> timestamp \<Rightarrow> uuid \<Rightarrow> application_form \<Rightarrow> database" where
  "insert_owner_application d new_id now uid form =
     d\<lparr>owner_applications := owner_applications d @
        [\<lparr>app_id = new_id, app_user_id = uid,
          app_contact_person = form_contact_person form,
          app_phone = form_phone form,
          app_email = form_email form,
          app_justification = form_justification form,
          app_status = pending, app_reviewed_by = None, app_reviewed_at = None,
          app_admin_notes = None, app_created_at = now, app_updated_at = now\<rparr>]\<rparr>"

text \<open>\<^verbatim>\<open>submitApplication\<close> (lines 402 to 439); \<open>err\<close> is the answer of the insert.\<close>

definition submitApplication ::
  "database \<Rightarrow> uuid option \<Rightarrow> application_form \<Rightarrow> uuid \<Rightarrow> timestamp \<Rightarrow> pg_error option
     \<Rightarrow> database \<times> toast option" where
  "submitApplication d usr form new_id now err =
     (case usr of
        None \<Rightarrow> (d, None)
      | Some uid \<Rightarrow>
          if form_contact_person form = [] \<or> form_phone form = [] \<or> form_email form = []
             \<or> form_justification form = []
          then (d, Some (toast_error ''Please fill all fields''))
          else
            (case err of
               Some e \<Rightarrow>
                 if code e = ''PGRST205''
                 then (d, Some (toast_error
                         ''Owner application system not set up yet. Contact the administrator.''))
                 else (d, Some (toast_error ''Failed to submit application. Contact administrator.''))
             | None \<Rightarrow>
                 (insert_owner_application d new_id now uid form,
                  Some (toast_success ''Application submitted successfully!''))))"

datatype button_view = render_null | status_card application_status | apply_form | become_owner_button

text \<open>
  What the component renders (lines 441 to 537). The button that calls
  \<^verbatim>\<open>submitApplication\<close> is part of \<open>apply_form\<close> only.
\<close>

definition OwnerApplicationButton ::
  "uuid option \<Rightarrow> owner_application option \<Rightarrow> bool \<Rightarrow> button_view" where
  "OwnerApplicationButton usr application showForm =
     (if usr = None then render_null
      else (case application of
              Some a \<Rightarrow> status_card (app_status a)
            | None \<Rightarrow> if showForm then apply_form else become_owner_button))"

definition pending_count :: "database \<Rightarrow> uuid \<Rightarrow> nat" where
  "pending_count d uid =
     length (filter (\<lambda>a. app_user_id a = uid \<and> app_status a = pending) (owner_applications d))"

section \<open>Ownership cascade\<close>

text \<open>
  \<^verbatim>\<open>OwnerWithStats\<close> of \<^verbatim>\<open>SuperAdminDashboard\<close> (unnamed/part_004, lines 26 to 29)
  extends a profile row; the optional list of locations is only displayed.
\<close>

record owner_with_stats = profile +
  location_count :: nat

text \<open>
  \<^verbatim>\<open>supabase.from('parking_locations').delete().eq('owner_user_id', ownerId)\<close>.

  Modelled from the spec: the schema is not among the sources; that deleting a location
  deletes the zones whose \<^verbatim>\<open>location_id\<close> refers to it is taken from section 4.3 (``the
  relational store's own cascading foreign-key delete'') and from the comment of the
  handler (``cascade handled by DB'').
\<close>

definition delete_locations_of_owner :: "database \<Rightarrow> uuid \<Rightarrow> database" where
  "delete_locations_of_owner d ownerId =
     (let gone = map loc_id (filter (\<lambda>l. loc_owner_user_id l = ownerId) (parking_locations d))
      in d\<lparr>parking_locations := filter (\<lambda>l. loc_owner_user_id l \<noteq> ownerId) (parking_locations d),
           parking_zones := filter (\<lambda>z. zone_location_id z \<notin> set gone) (parking_zones d)\<rparr>)"

text \<open>
  \<^verbatim>\<open>supabase.from('profiles').update({ user_role: 'user', updated_at: ... }).eq('id', ownerId)\<close>.
\<close>

definition set_role_user :: "timestamp \<Rightarrow> profile \<Rightarrow> profile" where
  "set_role_user now p = p\<lparr>prof_user_role := user, prof_updated_at := now\<rparr>"

definition downgrade_profile :: "database \<Rightarrow> uuid \<Rightarrow> timestamp \<Rightarrow> database" where
  "downgrade_profile d ownerId now =
     d\<lparr>profiles := map (\<lambda>p. if prof_id p = ownerId then set_role_user now p else p)
                        (profiles d)\<rparr>"

text \<open>The decimal digits of a number, as the template string of the message prints it.\<close>

fun show_nat :: "nat \<Rightarrow> string" where
  "show_nat n =
     (if n < 10 then [''0123456789'' ! n]
      else show_nat (n div 10) @ [''0123456789'' ! (n mod 10)])"

declare show_nat.simps [simp del]

text \<open>
  \<^verbatim>\<open>handleDeleteOwner\<close> (unnamed/part_004, lines 87 to 118). The two requests are sent
  one after the other, each committed by the store on its own, so the tables pass
  through the states listed here, oldest first: the state before, the state after the
  delete, the state after the update. \<open>locationsError\<close> and \<open>profileError\<close> are the
  answers of the two requests; \<open>now\<close> is \<^verbatim>\<open>new Date().toISOString()\<close>.
\<close>

definition handleDeleteOwner_states ::
  "database \<Rightarrow> owner_with_stats option \<Rightarrow> timestamp \<Rightarrow> pg_error option \<Rightarrow> pg_error option
     \<Rightarrow> database list \<times> toast option" where
  "handleDeleteOwner_states d owner now locationsError profileError =
     (case owner of
        None \<Rightarrow> ([d], None)
      | Some ow \<Rightarrow>
          (let ownerId = prof_id ow in
           case locationsError of
             Some e \<Rightarrow> ([d], Some (toast_error (''Failed to delete owner: '' @ message e)))
           | None \<Rightarrow>
               (let d1 = delete_locations_of_owner d ownerId in
                case profileError of
                  Some e \<Rightarrow> ([d, d1], Some (toast_error (''Failed to delete owner: '' @ message e)))
                | None \<Rightarrow>
                    (let d2 = downgrade_profile d1 ownerId now in
                     ([d, d1, d2],
                      Some (toast_success (''Owner removed successfully! ''
                              @ show_nat (location_count ow)
                              @ '' location(s) and all zones deleted.'')))))))"

text \<open>The handler as a whole: the tables it leaves behind and the message it shows.\<close>

definition handleDeleteOwner ::
  "database \<Rightarrow> owner_with_stats option \<Rightarrow> timestamp \<Rightarrow> pg_error option \<Rightarrow> pg_error option
     \<Rightarrow> database \<times> toast option" where
  "handleDeleteOwner d owner now locationsError profileError =
     (case handleDeleteOwner_states d owner now locationsError profileError of
        (states, t) \<Rightarrow> (last states, t))"

definition locations_of :: "database \<Rightarrow> uuid \<Rightarrow> parking_location list" where
  "locations_of d ownerId = filter (\<lambda>l. loc_owner_user_id l = ownerId) (parking_locations d)"

definition zones_of :: "database \<Rightarrow> parking_location list \<Rightarrow> parking_zone list" where
  "zones_of d ls = filter (\<lambda>z. zone_location_id z \<in> loc_id ` set ls) (parking_zones d)"

definition is_success :: "toast option \<Rightarrow> bool" where
  "is_success t = (case t of Some (toast_success m) \<Rightarrow> True | _ \<Rightarrow> False)"

definition is_error :: "toast option \<Rightarrow> bool" where
  "is_error t = (case t of Some (toast_error m) \<Rightarrow> True | _ \<Rightarrow> False)"

text \<open>A profile row with its \<^verbatim>\<open>updated_at\<close> column blanked out.\<close>

definition without_updated_at :: "profile \<Rightarrow> profile" where
  "without_updated_at p = p\<lparr>prof_updated_at := []\<rparr>"

section \<open>Zones\<close>

text \<open>
  The zone form of \<^verbatim>\<open>AdminDashboard\<close> (\<^verbatim>\<open>Dashboard.tsx\<close>, lines 658 to 665). The
  handler tests \<^verbatim>\<open>lat\<close> and \<^verbatim>\<open>lng\<close> against null and NaN, so a coordinate of the form is
  one of the three.
\<close>

datatype coord = Null | NaN | Num real

record zone_form =
  zf_name :: string
  zf_zone_number :: int
  zf_cost_per_hour :: real
  zf_total_slots :: int
  zf_lat :: coord
  zf_lng :: coord

record editing_zone =
  ez_locationId :: uuid
  ez_zone :: "parking_zone option"

text \<open>
  \<^verbatim>\<open>String.prototype.trim\<close> on the ASCII white space (space, tab, line feed, vertical tab,
  form feed, carriage return).
\<close>

definition is_space :: "char \<Rightarrow> bool" where
  "is_space c = (c \<in> set [CHR '' '', CHR 0x09, CHR 0x0A, CHR 0x0B, CHR 0x0C, CHR 0x0D])"

definition trim :: "string \<Rightarrow> string" where
  "trim s = rev (dropWhile is_space (rev (dropWhile is_space s)))"

definition isNaN :: "coord \<Rightarrow> bool" where
  "isNaN c = (c = NaN)"

text \<open>The two requests the handler can send to \<^verbatim>\<open>parking_zones\<close>.\<close>

record zone_insert =
  zi_location_id :: uuid
  zi_name :: string
  zi_zone_number :: int
  zi_lat :: real
  zi_lng :: real
  zi_cost_per_hour :: real
  zi_total_slots :: int
  zi_available_slots :: int

record zone_update =
  zu_name :: string
  zu_zone_number :: int
  zu_lat :: real
  zu_lng :: real
  zu_cost_per_hour :: real
  zu_total_slots :: int
  zu_updated_at :: timestamp

datatype zone_request = Update uuid zone_update | Insert zone_insert

datatype save_decision = Return | Reject string | Send zone_request

text \<open>
  \<^verbatim>\<open>handleSaveZone\<close> (\<^verbatim>\<open>Dashboard.tsx\<close>, lines 927 to 998) up to the request: nothing
  (\<open>Return\<close>), a validation message (\<open>Reject\<close>), or the request that is sent.
\<close>

definition handleSaveZone_request ::
  "editing_zone option \<Rightarrow> uuid option \<Rightarrow> zone_form \<Rightarrow> timestamp \<Rightarrow> save_decision" where
  "handleSaveZone_request editingZone usr zoneForm now =
     (case (editingZone, usr) of
        (Some ez, Some uid) \<Rightarrow>
          if trim (zf_name zoneForm) = [] then Reject ''Please enter a zone name''
          else if zf_zone_number zoneForm < 1 then Reject ''Zone number must be at least 1''
          else if zf_cost_per_hour zoneForm < 0 then Reject ''Cost per hour cannot be negative''
          else if zf_total_slots zoneForm < 1 then Reject ''Total slots must be at least 1''
          else if zf_lat zoneForm = Null \<or> zf_lng zoneForm = Null
                  \<or> isNaN (zf_lat zoneForm) \<or> isNaN (zf_lng zoneForm)
          then Reject ''Please provide valid latitude and longitude for the zone''
          else
            (case (zf_lat zoneForm, zf_lng zoneForm) of
               (Num vlat, Num vlng) \<Rightarrow>
                 if vlat = 0 \<and> vlng = 0 then Reject ''Zone coordinates cannot be 0,0''
                 else
                   (case ez_zone ez of
                      Some z \<Rightarrow>
                        Send (Update (zone_id z)
                          \<lparr>zu_name = zf_name zoneForm,
                           zu_zone_number = zf_zone_number zoneForm,
                           zu_lat = vlat, zu_lng = vlng,
                           zu_cost_per_hour = zf_cost_per_hour zoneForm,
                           zu_total_slots = zf_total_slots zoneForm,
                           zu_updated_at = now\<rparr>)
                    | None \<Rightarrow>
                        Send (Insert
                          \<lparr>zi_location_id = ez_locationId ez,
                           zi_name = zf_name zoneForm,
                           zi_zone_number = zf_zone_number zoneForm,
                           zi_lat = vlat, zi_lng = vlng,
                           zi_cost_per_hour = zf_cost_per_hour zoneForm,
                           zi_total_slots = zf_total_slots zoneForm,
                           zi_available_slots = zf_total_slots zoneForm\<rparr>))
             | _ \<Rightarrow> Reject ''Please provide valid latitude and longitude for the zone'')
      | _ \<Rightarrow> Return)"

text \<open>
  The columns an insert leaves to the store (\<^verbatim>\<open>id\<close>, \<^verbatim>\<open>is_full\<close>, \<^verbatim>\<open>status\<close>, the two
  time stamps are optional in the \<^verbatim>\<open>Insert\<close> type): their values are the store's and are
  passed in.
\<close>

record zone_defaults =
  zd_id :: uuid
  zd_is_full :: bool
  zd_status :: zone_status
  zd_now :: timestamp

text \<open>
  The store carrying out a request: \<^verbatim>\<open>update(...).eq('id', id)\<close> overwrites the seven
  columns named in the request in every row with that id and leaves the others;
  \<^verbatim>\<open>insert(zoneData)\<close> adds one row.
\<close>

fun apply_zone_request :: "database \<Rightarrow> zone_defaults \<Rightarrow> zone_request \<Rightarrow> database" where
  "apply_zone_request d dflt (Update zid u) =
     d\<lparr>parking_zones :=
         map (\<lambda>z. if zone_id z = zid
                  then z\<lparr>zone_name := zu_name u, zone_number := zu_zone_number u,
                         zone_lat := zu_lat u, zone_lng := zu_lng u,
                         zone_cost_per_hour := zu_cost_per_hour u,
                         zone_total_slots := zu_total_slots u,
                         zone_updated_at := zu_updated_at u\<rparr>
                  else z)
             (parking_zones d)\<rparr>"
| "apply_zone_request d dflt (Insert i) =
     d\<lparr>parking_zones := parking_zones d @
         [\<lparr>zone_id = zd_id dflt, zone_location_id = zi_location_id i, zone_name = zi_name i,
           zone_number = zi_zone_number i, zone_lat = zi_lat i, zone_lng = zi_lng i,
           zone_total_slots = zi_total_slots i, zone_available_slots = zi_available_slots i,
           zone_is_full = zd_is_full dflt, zone_status = zd_status dflt,
           zone_cost_per_hour = zi_cost_per_hour i,
           zone_created_at = zd_now dflt, zone_updated_at = zd_now dflt\<rparr>]\<rparr>"

text \<open>
  \<^verbatim>\<open>handleSaveZone\<close> as a whole (lines 927 to 1016); \<open>err\<close> is the answer of the request
  that is sent, if one is.
\<close>

definition handleSaveZone ::
  "database \<Rightarrow> editing_zone option \<Rightarrow> uuid option \<Rightarrow> zone_form \<Rightarrow> timestamp \<Rightarrow> zone_defaults
     \<Rightarrow> pg_error option \<Rightarrow> database \<times> toast option" where
  "handleSaveZone d editingZone usr zoneForm now dflt err =
     (case handleSaveZone_request editingZone usr zoneForm now of
        Return \<Rightarrow> (d, None)
      | Reject m \<Rightarrow> (d, Some (toast_error m))
      | Send rq \<Rightarrow>
          (case err of
             Some e \<Rightarrow> (d, Some (toast_error (''Failed to save zone: '' @ message e)))
           | None \<Rightarrow>
               (apply_zone_request d dflt rq,
                Some (toast_success (case rq of
                                       Update zid u \<Rightarrow> ''Zone updated successfully!''
                                     | Insert i \<Rightarrow> ''Zone added successfully!'')))))"

text \<open>The messages of the checks that precede the request, in the order of the checks.\<close>

definition validation_messages :: "string list" where
  "validation_messages =
     [''Please enter a zone name'', ''Zone number must be at least 1'',
      ''Cost per hour cannot be negative'', ''Total slots must be at least 1'',
      ''Please provide valid latitude and longitude for the zone'',
      ''Zone coordinates cannot be 0,0'']"

definition slots_ok :: "parking_zone \<Rightarrow> bool" where
  "slots_ok z = (0 \<le> zone_available_slots z \<and> zone_available_slots z \<le> zone_total_slots z)"

section \<open>Zone availability\<close>

text \<open>
  The statistics of one location in \<^verbatim>\<open>fetchLocationsWithZones\<close> of \<^verbatim>\<open>MapView\<close>
  (unnamed/part_003, lines 59 to 87). \<^verbatim>\<open>x || 0\<close> on an integer is 0 where \<open>x\<close> is 0 and
  \<open>x\<close> elsewhere; \<^verbatim>\<open>reduce\<close> folds from the left; \<^verbatim>\<open>sort\<close> with the comparator on
  \<^verbatim>\<open>zone_number\<close> is a stable sort. The sums are integers and the percentage is the exact
  quotient, without the rounding of a double.
\<close>

definition or0 :: "int \<Rightarrow> int" where
  "or0 x = (if x = 0 then 0 else x)"

record location_stats =
  zones :: "parking_zone list"
  totalSlots :: int
  availableSlots :: int
  occupancyPercentage :: real

definition location_with_stats :: "parking_zone list \<Rightarrow> location_stats" where
  "location_with_stats location_zones =
     (let zs = sort_key (\<lambda>z. or0 (zone_number z)) location_zones;
          tslots = foldl (\<lambda>sum zone. sum + or0 (zone_total_slots zone)) 0 zs;
          aslots = foldl (\<lambda>sum zone. sum + or0 (zone_available_slots zone)) 0 zs;
          occupancy = (if tslots > 0
                       then (real_of_int (tslots - aslots) / real_of_int tslots) * 100
                       else 0)
      in \<lparr>zones = zs, totalSlots = tslots, availableSlots = aslots,
          occupancyPercentage = occupancy\<rparr>)"

section \<open>Example tables\<close>

text \<open>
  A small instance of the four tables, used to run the definitions: a super admin, an
  owner with two locations and two zones, and a user with a pending application.
\<close>

definition ex_profile :: "uuid \<Rightarrow> user_role \<Rightarrow> profile" where
  "ex_profile uid r =
     \<lparr>prof_id = uid, prof_email = None, prof_full_name = Some ''N'', prof_phone = None,
      prof_avatar_url = None, prof_user_role = r, prof_created_at = ''t0'',
      prof_updated_at = ''t0''\<rparr>"

definition ex_application :: "uuid \<Rightarrow> uuid \<Rightarrow> application_status \<Rightarrow> owner_application" where
  "ex_application aid uid st =
     \<lparr>app_id = aid, app_user_id = uid, app_contact_person = ''c'', app_phone = ''1'',
      app_email = ''e'', app_justification = ''j'', app_status = st, app_reviewed_by = None,
      app_reviewed_at = None, app_admin_notes = None, app_created_at = ''t1'',
      app_updated_at = ''t1''\<rparr>"

definition ex_location :: "uuid \<Rightarrow> uuid \<Rightarrow> parking_location" where
  "ex_location lid uid =
     \<lparr>loc_id = lid, loc_name = ''L'', loc_address = ''A'', loc_lat = 12, loc_lng = 77,
      loc_owner_user_id = uid, loc_total_zones = 1, loc_description = None,
      loc_created_at = ''t0'', loc_updated_at = ''t0''\<rparr>"

definition ex_zone :: "uuid \<Rightarrow> uuid \<Rightarrow> int \<Rightarrow> int \<Rightarrow> int \<Rightarrow> parking_zone" where
  "ex_zone zid lid n tslots aslots =
     \<lparr>zone_id = zid, zone_location_id = lid, zone_name = ''Z'', zone_number = n,
      zone_lat = 12, zone_lng = 77, zone_total_slots = tslots, zone_available_slots = aslots,
      zone_is_full = False, zone_status = available, zone_cost_per_hour = 15,
      zone_created_at = ''t0'', zone_updated_at = ''t0''\<rparr>"

definition ex_db :: database where
  "ex_db =
     \<lparr>profiles = [ex_profile ''a'' super_admin, ex_profile ''o'' location_owner,
                  ex_profile ''u'' user],
      owner_applications = [ex_application ''r'' ''u'' pending],
      parking_locations = [ex_location ''k'' ''o'', ex_location ''l'' ''o'',
                           ex_location ''m'' ''a''],
      parking_zones = [ex_zone ''x'' ''k'' 1 50 50, ex_zone ''y'' ''m'' 1 20 5]\<rparr>"

definition ex_form :: zone_form where
  "ex_form = \<lparr>zf_name = ''Zone B'', zf_zone_number = 2, zf_cost_per_hour = 15,
              zf_total_slots = 10, zf_lat = Num 12, zf_lng = Num 77\<rparr>"

definition ex_defaults :: zone_defaults where
  "ex_defaults = \<lparr>zd_id = ''z'', zd_is_full = False, zd_status = available, zd_now = ''t2''\<rparr>"

definition ex_owner :: owner_with_stats where
  "ex_owner =
     \<lparr>prof_id = ''o'', prof_email = None, prof_full_name = Some ''N'', prof_phone = None,
      prof_avatar_url = None, prof_user_role = location_owner, prof_created_at = ''t0'',
      prof_updated_at = ''t0'', location_count = 2\<rparr>"

definition ex_error :: pg_error where
  "ex_error = \<lparr>code = ''500'', message = ''no connection''\<rparr>"

definition ex_application_form :: application_form where
  "ex_application_form =
     \<lparr>form_contact_person = ''c'', form_phone = ''1'', form_email = ''e'',
      form_justification = ''j''\<rparr>"

section \<open>Auxiliary facts about tables\<close>

lemma filter_single_ex:
  assumes "filter P xs = [p]"
  shows "(\<exists>x \<in> set xs. P x \<and> Q x) = Q p"
proof -
  have "{x \<in> set xs. P x} = {p}"
    using assms by (metis list.simps(15) set_filter empty_set)
  then show ?thesis by auto
qed

lemma select_user_role_SomeD:
  "select_user_role d uid = Some r \<Longrightarrow>
     \<exists>p. filter (\<lambda>p. prof_id p = uid) (profiles d) = [p] \<and> prof_user_role p = r"
  by (auto simp: select_user_role_def split: list.splits)

lemma sql_guard_iff:
  assumes "select_user_role d uid = Some r"
  shows "(\<exists>p \<in> set (profiles d). Some (prof_id p) = Some uid \<and> prof_user_role p = super_admin)
           = (r = super_admin)"
proof -
  from select_user_role_SomeD [OF assms] obtain p where
    f: "filter (\<lambda>p. prof_id p = uid) (profiles d) = [p]" and r: "prof_user_role p = r"
    by blast
  show ?thesis
    using filter_single_ex [OF f, of "\<lambda>p. prof_user_role p = super_admin"] r by simp
qed

lemma filter_map_upd_other:
  "(\<And>r. f (g r) = f r) \<Longrightarrow>
     filter (\<lambda>a. f a \<noteq> k) (map (\<lambda>r. if f r = k then g r else r) xs)
       = filter (\<lambda>a. f a \<noteq> k) xs"
  by (induction xs) auto

lemma filter_map_upd_same:
  "(\<And>r. f (g r) = f r) \<Longrightarrow>
     filter (\<lambda>a. f a = k) (map (\<lambda>r. if f r = k then g r else r) xs)
       = map g (filter (\<lambda>a. f a = k) xs)"
  by (induction xs) auto

lemma find_map_upd:
  "(\<And>r. f (g r) = f r) \<Longrightarrow>
     find (\<lambda>a. f a = k) (map (\<lambda>r. if f r = k then g r else r) xs)
       = map_option g (find (\<lambda>a. f a = k) xs)"
  by (induction xs) auto

lemma ex_db_roles:
  "select_user_role ex_db ''a'' = Some super_admin"
  "select_user_role ex_db ''o'' = Some location_owner"
  "select_user_role ex_db ''u'' = Some user"
  by (simp_all add: select_user_role_def ex_db_def ex_profile_def)

section \<open>Authorization policy\<close>

text \<open>
  Claim C6. For a signed-in user whose profile has role \<open>r\<close>, each guard of the code
  decides as the capability table of the specification says: the owner route renders
  its children exactly when \<open>r\<close> may manage own locations, that is when \<open>r\<close> is
  \<open>location_owner\<close> or \<open>super_admin\<close>; the request panel loads the applications, and the
  stored procedure gets past its privilege check, exactly when \<open>r\<close> may review
  applications, that is when \<open>r\<close> is \<open>super_admin\<close>; the location query has no owner
  filter exactly when \<open>r\<close> may manage all locations, that is when \<open>r\<close> is
  \<open>super_admin\<close>. Every other pair is denied.
\<close>

theorem role_guards_match_capabilities:
  assumes "select_user_role d uid = Some r"
  shows "(OwnerRoute (Some uid) False False (select_user_role d uid) = Children)
           = can_spec r manage_own_locations
       \<and> (\<exists>apps. fetchRequests d (Some uid) = Loaded apps) = can_spec r review_applications
       \<and> (snd (process_owner_application d (Some uid) now aid ap notes)
            \<noteq> Inl ''Unauthorized: Only super admins can process applications'')
           = can_spec r review_applications
       \<and> (fetchAdminLocations_query d (Some uid) = Loaded baseQuery)
           = can_spec r manage_all_locations
       \<and> can_spec r manage_own_locations = (r = location_owner \<or> r = super_admin)
       \<and> can_spec r manage_all_locations = (r = super_admin)
       \<and> can_spec r review_applications = (r = super_admin)"
proof -
  have a: "(OwnerRoute (Some uid) False False (select_user_role d uid) = Children)
           = can_spec r manage_own_locations"
    using assms by (cases r) (simp_all add: OwnerRoute_def)
  have b: "(\<exists>apps. fetchRequests d (Some uid) = Loaded apps) = can_spec r review_applications"
    using assms by (cases r) (simp_all add: fetchRequests_def)
  have c: "(snd (process_owner_application d (Some uid) now aid ap notes)
            \<noteq> Inl ''Unauthorized: Only super admins can process applications'')
           = can_spec r review_applications"
    using sql_guard_iff [OF assms]
    by (auto simp: process_owner_application_def Let_def split: option.splits)
  have e: "(fetchAdminLocations_query d (Some uid) = Loaded baseQuery)
           = can_spec r manage_all_locations"
    using assms by (cases r) (simp_all add: fetchAdminLocations_query_def)
  show ?thesis using a b c e by simp
qed

theorem role_guards_match_capabilities_witness:
  "select_user_role ex_db ''o'' = Some location_owner
   \<and> OwnerRoute (Some ''o'') False False (select_user_role ex_db ''o'') = Children
   \<and> \<not> (\<exists>apps. fetchRequests ex_db (Some ''o'') = Loaded apps)
   \<and> snd (process_owner_application ex_db (Some ''o'') ''t5'' ''r'' True None)
       = Inl ''Unauthorized: Only super admins can process applications''
   \<and> fetchAdminLocations_query ex_db (Some ''o'') \<noteq> Loaded baseQuery"
proof -
  have h: "select_user_role ex_db ''o'' = Some location_owner"
    by (rule ex_db_roles)
  show ?thesis
    using h role_guards_match_capabilities [OF h, of "''t5''" "''r''" True None] by simp
qed

section \<open>The decision on an application\<close>

lemma find_conj_Some:
  "find (\<lambda>a. P a \<and> Q a) xs = Some a \<Longrightarrow> find P xs \<noteq> None"
  by (induction xs) (simp_all split: if_splits)

lemma ball_map_upd:
  "(\<And>r. P (g r)) \<Longrightarrow>
     \<forall>r \<in> set (map (\<lambda>r. if f r = k then g r else r) xs). f r = k \<longrightarrow> P r"
  by (induction xs) simp_all

lemma set_decision_simps [simp]:
  "app_id (set_decision c n ap notes r) = app_id r"
  "app_status (set_decision c n ap notes r) = (if ap then approved else rejected)"
  by (simp_all add: set_decision_def)

lemma set_location_owner_simps [simp]:
  "prof_id (set_location_owner n p) = prof_id p"
  "prof_user_role (set_location_owner n p) = location_owner"
  by (simp_all add: set_location_owner_def)

lemma process_cases:
  "process_owner_application d caller now aid ap notes =
     (if \<not> (\<exists>p \<in> set (profiles d). Some (prof_id p) = caller \<and> prof_user_role p = super_admin)
      then (d, Inl ''Unauthorized: Only super admins can process applications'')
      else case find (\<lambda>a. app_id a = aid \<and> app_status a = pending) (owner_applications d) of
             None \<Rightarrow> (d, Inl ''Application not found or already processed'')
           | Some a \<Rightarrow>
               (d\<lparr>owner_applications :=
                    map (\<lambda>r. if app_id r = aid then set_decision caller now ap notes r else r)
                        (owner_applications d),
                  profiles :=
                    (if ap
                     then map (\<lambda>p. if prof_id p = app_user_id a then set_location_owner now p else p)
                              (profiles d)
                     else profiles d)\<rparr>,
                Inr True))"
  by (simp add: process_owner_application_def Let_def split: option.splits)

lemma process_raise_no_write:
  assumes "snd (process_owner_application d caller now aid ap notes) = Inl msg"
  shows "fst (process_owner_application d caller now aid ap notes) = d"
proof (cases "\<exists>p \<in> set (profiles d). Some (prof_id p) = caller \<and> prof_user_role p = super_admin")
  case False
  then show ?thesis by (simp add: process_cases)
next
  case True
  show ?thesis
  proof (cases "find (\<lambda>a. app_id a = aid \<and> app_status a = pending) (owner_applications d)")
    case None
    with True show ?thesis by (simp add: process_cases)
  next
    case (Some a)
    with True assms show ?thesis by (simp add: process_cases)
  qed
qed

lemma select_user_role_upd:
  "select_user_role d uid \<noteq> None \<Longrightarrow>
   profiles w = map (\<lambda>p. if prof_id p = uid then set_location_owner now p else p) (profiles d)
   \<Longrightarrow> select_user_role w uid = Some location_owner"
  by (simp add: select_user_role_def filter_map_upd_same split: list.splits)

lemma process_return:
  assumes "snd (process_owner_application d caller now aid ap notes) = Inr b"
  shows "\<exists>a. find (\<lambda>a. app_id a = aid \<and> app_status a = pending) (owner_applications d) = Some a
          \<and> process_owner_application d caller now aid ap notes =
               (d\<lparr>owner_applications :=
                    map (\<lambda>r. if app_id r = aid then set_decision caller now ap notes r else r)
                        (owner_applications d),
                  profiles :=
                    (if ap
                     then map (\<lambda>p. if prof_id p = app_user_id a then set_location_owner now p else p)
                              (profiles d)
                     else profiles d)\<rparr>,
                Inr True)"
proof (cases "\<exists>p \<in> set (profiles d). Some (prof_id p) = caller \<and> prof_user_role p = super_admin")
  case False
  with assms show ?thesis by (simp add: process_cases)
next
  case True
  show ?thesis
  proof (cases "find (\<lambda>a. app_id a = aid \<and> app_status a = pending) (owner_applications d)")
    case None
    with True assms show ?thesis by (simp add: process_cases)
  next
    case (Some a)
    with True show ?thesis by (simp add: process_cases)
  qed
qed

text \<open>The handler changes the tables through the procedure call only.\<close>

lemma handleReviewRequest_tables:
  "fst (handleReviewRequest d reviewDialog reviewMessage usr now) =
     (case (dlg_request reviewDialog, usr) of
        (Some request, Some uid) \<Rightarrow>
          fst (rpc_process_owner_application d (Some uid) now (app_id request)
                 (dlg_action reviewDialog = approve)
                 (if reviewMessage = [] then None else Some reviewMessage))
      | _ \<Rightarrow> d)"
  by (simp add: handleReviewRequest_def Let_def split: option.splits prod.splits sum.splits)

text \<open>
  Claim C1. A call of \<^verbatim>\<open>process_owner_application\<close> has one of two outcomes. Either
  it raises: then the tables are as before, and the body itself had written nothing
  when it raised. Or it returns true: then the application was pending, its status
  is now \<open>approved\<close> or \<open>rejected\<close> as asked, and on approval every profile row of
  the applicant has role \<open>location_owner\<close> in the same committed state (the role
  query answers \<open>location_owner\<close> where it found the applicant's profile before),
  while on rejection the profiles are exactly as before. The rows of other
  applications and of other users, the locations and the zones never change.
\<close>

theorem process_owner_application_atomic:
  assumes "rpc_process_owner_application d caller now aid ap notes = (d', res)"
  shows "(\<exists>msg. res = Inl msg \<and> d' = d
            \<and> fst (process_owner_application d caller now aid ap notes) = d)
       \<or> (res = Inr True
          \<and> (\<exists>applicant. pending_applicant d aid = Some applicant
               \<and> status_of d' aid = Some (if ap then approved else rejected)
               \<and> (\<forall>a \<in> set (owner_applications d'). app_id a = aid \<longrightarrow>
                     app_status a = (if ap then approved else rejected))
               \<and> (if ap
                   then (\<forall>p \<in> set (profiles d'). prof_id p = applicant \<longrightarrow>
                           prof_user_role p = location_owner)
                        \<and> (select_user_role d applicant \<noteq> None \<longrightarrow>
                             select_user_role d' applicant = Some location_owner)
                   else profiles d' = profiles d)
               \<and> filter (\<lambda>p. prof_id p \<noteq> applicant) (profiles d')
                   = filter (\<lambda>p. prof_id p \<noteq> applicant) (profiles d)
               \<and> filter (\<lambda>a. app_id a \<noteq> aid) (owner_applications d')
                   = filter (\<lambda>a. app_id a \<noteq> aid) (owner_applications d)
               \<and> parking_locations d' = parking_locations d
               \<and> parking_zones d' = parking_zones d))"
proof (cases "snd (process_owner_application d caller now aid ap notes)")
  case (Inl msg)
  from process_raise_no_write [OF Inl]
  have wd: "fst (process_owner_application d caller now aid ap notes) = d" .
  from assms Inl have "d' = d" and "res = Inl msg"
    by (simp_all add: rpc_process_owner_application_def split: prod.splits)
  with wd show ?thesis by simp
next
  case (Inr b)
  from process_return [OF Inr] obtain a where
    f: "find (\<lambda>a. app_id a = aid \<and> app_status a = pending) (owner_applications d) = Some a" and
    p: "process_owner_application d caller now aid ap notes =
               (d\<lparr>owner_applications :=
                    map (\<lambda>r. if app_id r = aid then set_decision caller now ap notes r else r)
                        (owner_applications d),
                  profiles :=
                    (if ap
                     then map (\<lambda>p. if prof_id p = app_user_id a then set_location_owner now p else p)
                              (profiles d)
                     else profiles d)\<rparr>,
                Inr True)"
    by blast
  from assms p have R: "res = Inr True" and
    apps: "owner_applications d' =
             map (\<lambda>r. if app_id r = aid then set_decision caller now ap notes r else r)
                 (owner_applications d)" and
    profs: "profiles d' =
              (if ap
               then map (\<lambda>p. if prof_id p = app_user_id a then set_location_owner now p else p)
                        (profiles d)
               else profiles d)" and
    rest: "parking_locations d' = parking_locations d" "parking_zones d' = parking_zones d"
    by (auto simp add: rpc_process_owner_application_def)
  from find_conj_Some [OF f] obtain a0 where
    f0: "find (\<lambda>a. app_id a = aid) (owner_applications d) = Some a0" by blast
  have 1: "pending_applicant d aid = Some (app_user_id a)"
    using f by (simp add: pending_applicant_def)
  have 2: "status_of d' aid = Some (if ap then approved else rejected)"
    using f0 by (simp add: status_of_def apps find_map_upd)
  have 3: "\<forall>r \<in> set (owner_applications d'). app_id r = aid \<longrightarrow>
             app_status r = (if ap then approved else rejected)"
    unfolding apps by (rule ball_map_upd) simp
  have 4: "if ap
           then (\<forall>p \<in> set (profiles d'). prof_id p = app_user_id a \<longrightarrow>
                   prof_user_role p = location_owner)
                \<and> (select_user_role d (app_user_id a) \<noteq> None \<longrightarrow>
                     select_user_role d' (app_user_id a) = Some location_owner)
           else profiles d' = profiles d"
  proof (cases ap)
    case True
    with profs have pr: "profiles d' =
        map (\<lambda>p. if prof_id p = app_user_id a then set_location_owner now p else p) (profiles d)"
      by simp
    have "\<forall>p \<in> set (profiles d'). prof_id p = app_user_id a \<longrightarrow> prof_user_role p = location_owner"
      unfolding pr by (rule ball_map_upd) simp
    moreover have "select_user_role d (app_user_id a) \<noteq> None \<longrightarrow>
                     select_user_role d' (app_user_id a) = Some location_owner"
      using select_user_role_upd [OF _ pr] by blast
    ultimately show ?thesis using True by simp
  next
    case False
    then show ?thesis using profs by simp
  qed
  have 6: "filter (\<lambda>p. prof_id p \<noteq> app_user_id a) (profiles d')
             = filter (\<lambda>p. prof_id p \<noteq> app_user_id a) (profiles d)"
    by (simp add: profs filter_map_upd_other)
  have 7: "filter (\<lambda>r. app_id r \<noteq> aid) (owner_applications d')
             = filter (\<lambda>r. app_id r \<noteq> aid) (owner_applications d)"
    by (simp add: apps filter_map_upd_other)
  have B: "pending_applicant d aid = Some (app_user_id a)
        \<and> status_of d' aid = Some (if ap then approved else rejected)
        \<and> (\<forall>a \<in> set (owner_applications d'). app_id a = aid \<longrightarrow>
              app_status a = (if ap then approved else rejected))
        \<and> (if ap
            then (\<forall>p \<in> set (profiles d'). prof_id p = app_user_id a \<longrightarrow>
                    prof_user_role p = location_owner)
                 \<and> (select_user_role d (app_user_id a) \<noteq> None \<longrightarrow>
                      select_user_role d' (app_user_id a) = Some location_owner)
            else profiles d' = profiles d)
        \<and> filter (\<lambda>p. prof_id p \<noteq> app_user_id a) (profiles d')
            = filter (\<lambda>p. prof_id p \<noteq> app_user_id a) (profiles d)
        \<and> filter (\<lambda>a. app_id a \<noteq> aid) (owner_applications d')
            = filter (\<lambda>a. app_id a \<noteq> aid) (owner_applications d)
        \<and> parking_locations d' = parking_locations d
        \<and> parking_zones d' = parking_zones d"
    using 1 2 3 4 6 7 rest by (intro conjI)
  show ?thesis
    apply (rule disjI2)
    apply (rule conjI)
     apply (rule R)
    apply (rule exI [of _ "app_user_id a"])
    apply (rule B)
    done
qed

theorem process_owner_application_atomic_witness:
  "snd (rpc_process_owner_application ex_db (Some ''a'') ''t5'' ''r'' True None) = Inr True
   \<and> pending_applicant ex_db ''r'' = Some ''u''
   \<and> select_user_role ex_db ''u'' = Some user
   \<and> status_of (fst (rpc_process_owner_application ex_db (Some ''a'') ''t5'' ''r'' True None)) ''r''
       = Some approved
   \<and> select_user_role
         (fst (rpc_process_owner_application ex_db (Some ''a'') ''t5'' ''r'' True None)) ''u''
       = Some location_owner"
  using process_owner_application_atomic [OF surjective_pairing,
          of ex_db "Some ''a''" "''t5''" "''r''" True None]
  by (simp add: rpc_process_owner_application_def process_owner_application_def
        pending_applicant_def status_of_def select_user_role_def ex_db_def ex_profile_def
        ex_application_def set_decision_def set_location_owner_def Let_def)

section \<open>Removing an owner\<close>

lemma map_map_upd_keep:
  "(\<And>r. h (g r) = h r) \<Longrightarrow> map h (map (\<lambda>r. if f r = k then g r else r) xs) = map h xs"
  by (induction xs) simp_all

lemma set_role_user_simps [simp]:
  "prof_id (set_role_user n p) = prof_id p"
  "prof_user_role (set_role_user n p) = user"
  "prof_email (set_role_user n p) = prof_email p"
  "prof_full_name (set_role_user n p) = prof_full_name p"
  "prof_phone (set_role_user n p) = prof_phone p"
  "prof_avatar_url (set_role_user n p) = prof_avatar_url p"
  "prof_created_at (set_role_user n p) = prof_created_at p"
  "prof_updated_at (set_role_user n p) = n"
  by (simp_all add: set_role_user_def)

lemma set_role_user_twice [simp]:
  "set_role_user n' (set_role_user n p) = set_role_user n' p"
  by (simp add: set_role_user_def)

lemma without_updated_at_set_role_user:
  "prof_user_role p = user \<Longrightarrow> without_updated_at (set_role_user n p) = without_updated_at p"
  by (simp add: set_role_user_def without_updated_at_def)

lemma delete_locations_simps [simp]:
  "parking_locations (delete_locations_of_owner d k)
     = filter (\<lambda>l. loc_owner_user_id l \<noteq> k) (parking_locations d)"
  "parking_zones (delete_locations_of_owner d k)
     = filter (\<lambda>z. zone_location_id z \<notin> loc_id ` set (locations_of d k)) (parking_zones d)"
  "profiles (delete_locations_of_owner d k) = profiles d"
  "owner_applications (delete_locations_of_owner d k) = owner_applications d"
  by (simp_all add: delete_locations_of_owner_def locations_of_def Let_def)

lemma downgrade_simps [simp]:
  "parking_locations (downgrade_profile d k n) = parking_locations d"
  "parking_zones (downgrade_profile d k n) = parking_zones d"
  "owner_applications (downgrade_profile d k n) = owner_applications d"
  "profiles (downgrade_profile d k n)
     = map (\<lambda>p. if prof_id p = k then set_role_user n p else p) (profiles d)"
  by (simp_all add: downgrade_profile_def)

lemma locations_of_simps [simp]:
  "locations_of (delete_locations_of_owner d k) k = []"
  "locations_of (downgrade_profile d k n) j = locations_of d j"
  by (simp_all add: locations_of_def)

lemma zones_of_delete [simp]:
  "zones_of (delete_locations_of_owner d k) (locations_of d k) = []"
  by (simp add: zones_of_def)

lemma zones_of_downgrade [simp]:
  "zones_of (downgrade_profile d k n) ls = zones_of d ls"
  by (simp add: zones_of_def)

lemma delete_locations_twice:
  "delete_locations_of_owner (delete_locations_of_owner d k) k = delete_locations_of_owner d k"
  by (simp add: delete_locations_of_owner_def Let_def)

lemma handleDeleteOwner_states_eq:
  "handleDeleteOwner_states d (Some ow) now lerr perr =
     (case lerr of
        Some e \<Rightarrow> ([d], Some (toast_error (''Failed to delete owner: '' @ message e)))
      | None \<Rightarrow>
          (case perr of
             Some e \<Rightarrow> ([d, delete_locations_of_owner d (prof_id ow)],
                        Some (toast_error (''Failed to delete owner: '' @ message e)))
           | None \<Rightarrow> ([d, delete_locations_of_owner d (prof_id ow),
                         downgrade_profile (delete_locations_of_owner d (prof_id ow)) (prof_id ow) now],
                        Some (toast_success (''Owner removed successfully! ''
                              @ show_nat (location_count ow)
                              @ '' location(s) and all zones deleted.'')))))"
  by (simp add: handleDeleteOwner_states_def Let_def split: option.splits)

lemma is_success_simps [simp]:
  "is_success None = False"
  "is_success (Some (toast_error m)) = False"
  "is_success (Some (toast_success m)) = True"
  by (simp_all add: is_success_def)

lemma handleDeleteOwner_success:
  assumes "handleDeleteOwner d (Some ow) now lerr perr = (d', t)" and "is_success t"
  shows "lerr = None \<and> perr = None
         \<and> d' = downgrade_profile (delete_locations_of_owner d (prof_id ow)) (prof_id ow) now"
proof -
  from assms(1) have d': "d' = fst (handleDeleteOwner d (Some ow) now lerr perr)"
    and t: "t = snd (handleDeleteOwner d (Some ow) now lerr perr)" by simp_all
  from assms(2) have s: "is_success (snd (handleDeleteOwner d (Some ow) now lerr perr))"
    unfolding t .
  show ?thesis
    using s unfolding d'
    by (cases lerr; cases perr)
       (simp_all add: handleDeleteOwner_def handleDeleteOwner_states_eq)
qed

lemma handleDeleteOwner_rerun:
  "handleDeleteOwner d (Some ow) now None None =
     (downgrade_profile (delete_locations_of_owner d (prof_id ow)) (prof_id ow) now,
      Some (toast_success (''Owner removed successfully! ''
                              @ show_nat (location_count ow)
                              @ '' location(s) and all zones deleted.'')))"
  by (simp add: handleDeleteOwner_def handleDeleteOwner_states_eq)

lemma filter_filter_neg [simp]:
  "filter (\<lambda>x. f x \<noteq> k) (filter (\<lambda>x. f x \<noteq> k) xs) = filter (\<lambda>x. f x \<noteq> k) xs"
  by (induction xs) simp_all

lemma removed_fixpoint:
  "delete_locations_of_owner (downgrade_profile (delete_locations_of_owner d k) k n) k
     = downgrade_profile (delete_locations_of_owner d k) k n"
  by (simp add: delete_locations_of_owner_def downgrade_profile_def Let_def)

lemma map_upd_twice:
  "(\<And>r. f (g r) = f r) \<Longrightarrow>
   map (\<lambda>r. if f r = k then g' r else r) (map (\<lambda>r. if f r = k then g r else r) xs)
     = map (\<lambda>r. if f r = k then g' (g r) else r) xs"
  by (induction xs) simp_all

lemma downgrade_twice:
  "downgrade_profile (downgrade_profile d k n) k n' = downgrade_profile d k n'"
  by (simp add: downgrade_profile_def map_upd_twice)

lemma rerun_state:
  "downgrade_profile
     (delete_locations_of_owner (downgrade_profile (delete_locations_of_owner d k) k n) k) k n'
     = downgrade_profile (delete_locations_of_owner d k) k n'"
  by (simp add: removed_fixpoint downgrade_twice)

lemma map_without_updated_at_downgrade:
  "map without_updated_at (profiles (downgrade_profile (downgrade_profile d k n) k n'))
     = map without_updated_at (profiles (downgrade_profile d k n))"
  by (simp add: downgrade_twice) (simp add: without_updated_at_def set_role_user_def o_def if_distrib cong: if_cong)

lemma select_user_role_downgrade:
  "select_user_role d k \<noteq> None \<Longrightarrow> select_user_role (downgrade_profile d k n) k = Some user"
  by (simp add: select_user_role_def filter_map_upd_same split: list.splits)

lemma is_error_simps [simp]:
  "is_error None = False"
  "is_error (Some (toast_error m)) = True"
  "is_error (Some (toast_success m)) = False"
  by (simp_all add: is_error_def)

lemma handleDeleteOwner_profiles:
  "profiles (fst (handleDeleteOwner d owner now lerr perr)) =
     (case owner of
        None \<Rightarrow> profiles d
      | Some ow \<Rightarrow>
          if lerr = None \<and> perr = None
          then map (\<lambda>p. if prof_id p = prof_id ow then set_role_user now p else p) (profiles d)
          else profiles d)"
proof (cases owner)
  case None
  then show ?thesis by (simp add: handleDeleteOwner_def handleDeleteOwner_states_def)
next
  case (Some ow)
  show ?thesis
    unfolding Some
    by (cases lerr; cases perr) (simp_all add: handleDeleteOwner_def handleDeleteOwner_states_eq)
qed

lemma handleDeleteOwner_is_success:
  "is_success (snd (handleDeleteOwner d owner now lerr perr))
     = (owner \<noteq> None \<and> lerr = None \<and> perr = None)"
proof (cases owner)
  case None
  then show ?thesis by (simp add: handleDeleteOwner_def handleDeleteOwner_states_def)
next
  case (Some ow)
  show ?thesis
    unfolding Some
    by (cases lerr; cases perr) (simp_all add: handleDeleteOwner_def handleDeleteOwner_states_eq)
qed

lemma ex_removed:
  "handleDeleteOwner ex_db (Some ex_owner) ''t9'' None None =
     (downgrade_profile (delete_locations_of_owner ex_db ''o'') ''o'' ''t9'',
      Some (toast_success ''Owner removed successfully! 2 location(s) and all zones deleted.''))"
  by (simp add: handleDeleteOwner_rerun ex_owner_def show_nat.simps)

text \<open>
  Claim C2, as stated, fails. The handler sends the delete and the role update as two
  requests. In the example tables the owner \<open>o\<close> has locations and role
  \<open>location_owner\<close>; after the first request the locations are gone and the role is
  still \<open>location_owner\<close>, and when the second request fails this is the state the
  handler leaves behind.
\<close>

theorem removeOwner_not_atomic_counterexample:
  "locations_of ex_db ''o'' \<noteq> []
   \<and> select_user_role ex_db ''o'' = Some location_owner
   \<and> locations_of (fst (handleDeleteOwner_states ex_db (Some ex_owner) ''t9'' None None) ! 1) ''o''
       = []
   \<and> select_user_role
        (fst (handleDeleteOwner_states ex_db (Some ex_owner) ''t9'' None None) ! 1) ''o''
       = Some location_owner
   \<and> is_error (snd (handleDeleteOwner ex_db (Some ex_owner) ''t9'' None (Some ex_error)))
   \<and> locations_of (fst (handleDeleteOwner ex_db (Some ex_owner) ''t9'' None (Some ex_error))) ''o''
       = []
   \<and> select_user_role
        (fst (handleDeleteOwner ex_db (Some ex_owner) ''t9'' None (Some ex_error))) ''o''
       = Some location_owner"
proof -
  have k: "prof_id ex_owner = ''o''" by (simp add: ex_owner_def)
  have l: "locations_of ex_db ''o'' \<noteq> []"
    by (simp add: locations_of_def ex_db_def ex_location_def)
  have r: "select_user_role (delete_locations_of_owner ex_db ''o'') ''o'' = Some location_owner"
    using ex_db_roles(2) by (simp add: select_user_role_def)
  show ?thesis
    using l r by (simp add: handleDeleteOwner_def handleDeleteOwner_states_eq k ex_db_roles)
qed

text \<open>
  Claim C2, amended. The states the tables pass through begin with the state before;
  every later state has no location of the owner and no zone under one of the owner's
  former locations; the profiles differ from those before in the last state at most,
  and then the handler reports success. So the role is never reverted while locations
  of the owner exist. Once the delete has succeeded there is a state with the
  locations gone and the profiles as before; if the update then fails, that state is
  the final one and the handler reports an error. If the delete fails, nothing
  changes.
\<close>

theorem removeOwner_states:
  assumes "handleDeleteOwner_states d (Some ow) now lerr perr = (states, t)"
  shows "hd states = d
       \<and> last states = fst (handleDeleteOwner d (Some ow) now lerr perr)
       \<and> (\<forall>s \<in> set (tl states). locations_of s (prof_id ow) = []
                                 \<and> zones_of s (locations_of d (prof_id ow)) = [])
       \<and> (\<forall>s \<in> set (butlast states). profiles s = profiles d)
       \<and> (profiles (last states) \<noteq> profiles d \<longrightarrow> is_success t)
       \<and> (lerr = None \<longrightarrow>
            2 \<le> length states
            \<and> states ! 1 = delete_locations_of_owner d (prof_id ow)
            \<and> profiles (states ! 1) = profiles d
            \<and> locations_of (states ! 1) (prof_id ow) = [])
       \<and> (lerr = None \<and> perr \<noteq> None \<longrightarrow> last states = states ! 1 \<and> is_error t)
       \<and> (lerr \<noteq> None \<longrightarrow> states = [d] \<and> is_error t)"
proof -
  from assms have st: "states = fst (handleDeleteOwner_states d (Some ow) now lerr perr)"
    and t: "t = snd (handleDeleteOwner_states d (Some ow) now lerr perr)" by simp_all
  show ?thesis
    unfolding st t
    by (cases lerr; cases perr)
       (simp_all add: handleDeleteOwner_def handleDeleteOwner_states_eq)
qed

theorem removeOwner_states_witness:
  "length (fst (handleDeleteOwner_states ex_db (Some ex_owner) ''t9'' None None)) = 3
   \<and> locations_of ex_db ''o'' \<noteq> []
   \<and> locations_of (fst (handleDeleteOwner_states ex_db (Some ex_owner) ''t9'' None None) ! 1) ''o''
       = []
   \<and> locations_of (fst (handleDeleteOwner_states ex_db (Some ex_owner) ''t9'' None None) ! 2) ''o''
       = []
   \<and> profiles (fst (handleDeleteOwner_states ex_db (Some ex_owner) ''t9'' None None) ! 1)
       = profiles ex_db
   \<and> is_success (snd (handleDeleteOwner_states ex_db (Some ex_owner) ''t9'' None None))"
proof -
  have k: "prof_id ex_owner = ''o''" by (simp add: ex_owner_def)
  have l: "locations_of ex_db ''o'' \<noteq> []"
    by (simp add: locations_of_def ex_db_def ex_location_def)
  from removeOwner_states [OF surjective_pairing, of ex_db ex_owner "''t9''" None None]
  show ?thesis
    using l by (simp add: handleDeleteOwner_def handleDeleteOwner_states_eq k)
qed

text \<open>
  Claim C3. After a run of the handler that reports success, no location of the
  owner and no zone under one of the owner's former locations remains, the id column
  of the profiles is as before (no profile row is deleted), every profile row of the
  owner has role \<open>user\<close>, and the role query answers \<open>user\<close> where it found the
  owner's profile before. Running the handler again for the same owner, with both
  requests answered without error, reports success and leaves locations, zones,
  applications and every profile column other than \<^verbatim>\<open>updated_at\<close> as they are; with the
  same time stamp the tables are exactly the same.
\<close>

theorem removeOwner_postcondition:
  assumes "handleDeleteOwner d (Some ow) now lerr perr = (d', t)" and "is_success t"
  shows "locations_of d' (prof_id ow) = []
       \<and> zones_of d' (locations_of d (prof_id ow)) = []
       \<and> map prof_id (profiles d') = map prof_id (profiles d)
       \<and> (\<forall>p \<in> set (profiles d'). prof_id p = prof_id ow \<longrightarrow> prof_user_role p = user)
       \<and> (select_user_role d (prof_id ow) \<noteq> None \<longrightarrow>
            select_user_role d' (prof_id ow) = Some user)
       \<and> (prof_id ow' = prof_id ow \<longrightarrow>
            is_success (snd (handleDeleteOwner d' (Some ow') now' None None))
            \<and> parking_locations (fst (handleDeleteOwner d' (Some ow') now' None None))
                = parking_locations d'
            \<and> parking_zones (fst (handleDeleteOwner d' (Some ow') now' None None))
                = parking_zones d'
            \<and> owner_applications (fst (handleDeleteOwner d' (Some ow') now' None None))
                = owner_applications d'
            \<and> map without_updated_at (profiles (fst (handleDeleteOwner d' (Some ow') now' None None)))
                = map without_updated_at (profiles d')
            \<and> (now' = now \<longrightarrow> fst (handleDeleteOwner d' (Some ow') now' None None) = d'))"
proof -
  let ?k = "prof_id ow"
  let ?d1 = "delete_locations_of_owner d ?k"
  from handleDeleteOwner_success [OF assms]
  have d': "d' = downgrade_profile ?d1 ?k now" by simp
  have 1: "locations_of d' ?k = []" by (simp add: d')
  have 2: "zones_of d' (locations_of d ?k) = []" by (simp add: d')
  have 3: "map prof_id (profiles d') = map prof_id (profiles d)"
    by (simp add: d' map_map_upd_keep)
  have 4: "\<forall>p \<in> set (profiles d'). prof_id p = ?k \<longrightarrow> prof_user_role p = user"
    unfolding d' downgrade_simps by (rule ball_map_upd) simp
  have 5: "select_user_role d ?k \<noteq> None \<longrightarrow> select_user_role d' ?k = Some user"
  proof
    assume "select_user_role d ?k \<noteq> None"
    then have "select_user_role ?d1 ?k \<noteq> None" by (simp add: select_user_role_def)
    then show "select_user_role d' ?k = Some user"
      unfolding d' by (rule select_user_role_downgrade)
  qed
  have 6: "prof_id ow' = ?k \<longrightarrow>
            is_success (snd (handleDeleteOwner d' (Some ow') now' None None))
            \<and> parking_locations (fst (handleDeleteOwner d' (Some ow') now' None None))
                = parking_locations d'
            \<and> parking_zones (fst (handleDeleteOwner d' (Some ow') now' None None))
                = parking_zones d'
            \<and> owner_applications (fst (handleDeleteOwner d' (Some ow') now' None None))
                = owner_applications d'
            \<and> map without_updated_at (profiles (fst (handleDeleteOwner d' (Some ow') now' None None)))
                = map without_updated_at (profiles d')
            \<and> (now' = now \<longrightarrow> fst (handleDeleteOwner d' (Some ow') now' None None) = d')"
  proof
    assume k: "prof_id ow' = ?k"
    have r: "fst (handleDeleteOwner d' (Some ow') now' None None) = downgrade_profile ?d1 ?k now'"
      by (simp add: handleDeleteOwner_rerun k d' rerun_state)
    have w: "map without_updated_at (profiles (downgrade_profile ?d1 ?k now'))
               = map without_updated_at (profiles (downgrade_profile ?d1 ?k now))"
      using map_without_updated_at_downgrade [of ?d1 ?k now now']
            map_without_updated_at_downgrade [of ?d1 ?k now now]
      by (simp add: downgrade_twice)
    show "is_success (snd (handleDeleteOwner d' (Some ow') now' None None))
            \<and> parking_locations (fst (handleDeleteOwner d' (Some ow') now' None None))
                = parking_locations d'
            \<and> parking_zones (fst (handleDeleteOwner d' (Some ow') now' None None))
                = parking_zones d'
            \<and> owner_applications (fst (handleDeleteOwner d' (Some ow') now' None None))
                = owner_applications d'
            \<and> map without_updated_at (profiles (fst (handleDeleteOwner d' (Some ow') now' None None)))
                = map without_updated_at (profiles d')
            \<and> (now' = now \<longrightarrow> fst (handleDeleteOwner d' (Some ow') now' None None) = d')"
      unfolding r using w by (simp add: handleDeleteOwner_rerun d')
  qed
  from 1 2 3 4 5 6 show ?thesis by (intro conjI)
qed

theorem removeOwner_postcondition_witness:
  "is_success (snd (handleDeleteOwner ex_db (Some ex_owner) ''t9'' None None))
   \<and> locations_of ex_db ''o'' = [ex_location ''k'' ''o'', ex_location ''l'' ''o'']
   \<and> zones_of ex_db (locations_of ex_db ''o'') = [ex_zone ''x'' ''k'' 1 50 50]
   \<and> select_user_role ex_db ''o'' = Some location_owner
   \<and> locations_of (fst (handleDeleteOwner ex_db (Some ex_owner) ''t9'' None None)) ''o'' = []
   \<and> zones_of (fst (handleDeleteOwner ex_db (Some ex_owner) ''t9'' None None))
        (locations_of ex_db ''o'') = []
   \<and> select_user_role (fst (handleDeleteOwner ex_db (Some ex_owner) ''t9'' None None)) ''o''
        = Some user
   \<and> is_success (snd (handleDeleteOwner
          (fst (handleDeleteOwner ex_db (Some ex_owner) ''t9'' None None))
          (Some ex_owner) ''t9'' None None))
   \<and> fst (handleDeleteOwner
          (fst (handleDeleteOwner ex_db (Some ex_owner) ''t9'' None None))
          (Some ex_owner) ''t9'' None None)
       = fst (handleDeleteOwner ex_db (Some ex_owner) ''t9'' None None)"
proof -
  have s: "is_success (snd (handleDeleteOwner ex_db (Some ex_owner) ''t9'' None None))"
    by (simp add: ex_removed)
  have k: "prof_id ex_owner = ''o''" by (simp add: ex_owner_def)
  have l: "locations_of ex_db ''o'' = [ex_location ''k'' ''o'', ex_location ''l'' ''o'']"
    by (simp add: locations_of_def ex_db_def ex_location_def)
  have z: "zones_of ex_db (locations_of ex_db ''o'') = [ex_zone ''x'' ''k'' 1 50 50]"
    unfolding l by (simp add: zones_of_def ex_db_def ex_location_def ex_zone_def)
  from removeOwner_postcondition [OF surjective_pairing s,
         where ow' = ex_owner and now' = "''t9''"]
  show ?thesis
    unfolding k using s l z ex_db_roles(2) by simp
qed

text \<open>
  Claim C10. Whatever the handler is given and whatever the two requests answer, the
  columns \<^verbatim>\<open>id\<close>, \<^verbatim>\<open>email\<close>, \<^verbatim>\<open>full_name\<close>, \<^verbatim>\<open>phone\<close>, \<^verbatim>\<open>avatar_url\<close> and \<^verbatim>\<open>created_at\<close>
  of the profiles are afterwards what they were, row by row, and the rows of every
  other user are untouched; after a successful run the owner's rows carry role
  \<open>user\<close> and the time stamp of the update in \<^verbatim>\<open>updated_at\<close>.
\<close>

theorem removeOwner_profile_frame:
  "map prof_id (profiles (fst (handleDeleteOwner d owner now lerr perr))) = map prof_id (profiles d)
   \<and> map prof_email (profiles (fst (handleDeleteOwner d owner now lerr perr)))
       = map prof_email (profiles d)
   \<and> map prof_full_name (profiles (fst (handleDeleteOwner d owner now lerr perr)))
       = map prof_full_name (profiles d)
   \<and> map prof_phone (profiles (fst (handleDeleteOwner d owner now lerr perr)))
       = map prof_phone (profiles d)
   \<and> map prof_avatar_url (profiles (fst (handleDeleteOwner d owner now lerr perr)))
       = map prof_avatar_url (profiles d)
   \<and> map prof_created_at (profiles (fst (handleDeleteOwner d owner now lerr perr)))
       = map prof_created_at (profiles d)
   \<and> (owner = Some ow \<longrightarrow>
        filter (\<lambda>p. prof_id p \<noteq> prof_id ow) (profiles (fst (handleDeleteOwner d owner now lerr perr)))
          = filter (\<lambda>p. prof_id p \<noteq> prof_id ow) (profiles d)
        \<and> (is_success (snd (handleDeleteOwner d owner now lerr perr)) \<longrightarrow>
             (\<forall>p \<in> set (profiles (fst (handleDeleteOwner d owner now lerr perr))).
                prof_id p = prof_id ow \<longrightarrow> prof_user_role p = user \<and> prof_updated_at p = now)))"
proof -
  let ?ps = "profiles (fst (handleDeleteOwner d owner now lerr perr))"
  have cols: "map prof_id ?ps = map prof_id (profiles d)
            \<and> map prof_email ?ps = map prof_email (profiles d)
            \<and> map prof_full_name ?ps = map prof_full_name (profiles d)
            \<and> map prof_phone ?ps = map prof_phone (profiles d)
            \<and> map prof_avatar_url ?ps = map prof_avatar_url (profiles d)
            \<and> map prof_created_at ?ps = map prof_created_at (profiles d)"
    unfolding handleDeleteOwner_profiles
    by (simp add: map_map_upd_keep split: option.splits)
  have others: "owner = Some ow \<Longrightarrow>
        filter (\<lambda>p. prof_id p \<noteq> prof_id ow) ?ps
          = filter (\<lambda>p. prof_id p \<noteq> prof_id ow) (profiles d)"
    unfolding handleDeleteOwner_profiles by (simp add: filter_map_upd_other)
  have written: "owner = Some ow \<Longrightarrow> is_success (snd (handleDeleteOwner d owner now lerr perr)) \<Longrightarrow>
             (\<forall>p \<in> set ?ps.
                prof_id p = prof_id ow \<longrightarrow> prof_user_role p = user \<and> prof_updated_at p = now)"
  proof -
    assume o: "owner = Some ow" and s: "is_success (snd (handleDeleteOwner d owner now lerr perr))"
    from s o have ps: "?ps = map (\<lambda>p. if prof_id p = prof_id ow then set_role_user now p else p) (profiles d)"
      unfolding handleDeleteOwner_profiles handleDeleteOwner_is_success by simp
    show ?thesis unfolding ps by (rule ball_map_upd) simp
  qed
  from cols others written show ?thesis by blast
qed

theorem removeOwner_profile_frame_witness:
  "map prof_full_name (profiles (fst (handleDeleteOwner ex_db (Some ex_owner) ''t9'' None None)))
     = [Some ''N'', Some ''N'', Some ''N'']
   \<and> map prof_user_role (profiles (fst (handleDeleteOwner ex_db (Some ex_owner) ''t9'' None None)))
     = [super_admin, user, user]
   \<and> map prof_updated_at (profiles (fst (handleDeleteOwner ex_db (Some ex_owner) ''t9'' None None)))
     = [''t0'', ''t9'', ''t0'']
   \<and> filter (\<lambda>p. prof_id p \<noteq> ''o'')
        (profiles (fst (handleDeleteOwner ex_db (Some ex_owner) ''t9'' None None)))
     = [ex_profile ''a'' super_admin, ex_profile ''u'' user]"
proof -
  have k: "prof_id ex_owner = ''o''" by (simp add: ex_owner_def)
  have p: "profiles (fst (handleDeleteOwner ex_db (Some ex_owner) ''t9'' None None))
             = [ex_profile ''a'' super_admin, set_role_user ''t9'' (ex_profile ''o'' location_owner),
                ex_profile ''u'' user]"
    by (simp add: handleDeleteOwner_profiles k) (simp add: ex_db_def ex_profile_def)
  from removeOwner_profile_frame [of ex_db "Some ex_owner" "''t9''" None None ex_owner]
  show ?thesis
    unfolding p k by (simp add: ex_profile_def set_role_user_def)
qed

section \<open>Submitting an application\<close>

lemma pending_count_insert:
  "pending_count (insert_owner_application d new_id now uid form) k
     = pending_count d k + (if k = uid then 1 else 0)"
  by (simp add: pending_count_def insert_owner_application_def)

lemma insort_key_not_Nil: "insort_key f x ys \<noteq> []"
  by (cases ys) simp_all

lemma sort_key_Nil_iff: "sort_key f xs = [] \<longleftrightarrow> xs = []"
  by (cases xs) (simp_all add: insort_key_not_Nil)

lemma checkExistingApplication_None_iff:
  "checkExistingApplication d (Some uid) None = None
     \<longleftrightarrow> filter (\<lambda>a. app_user_id a = uid) (owner_applications d) = []"
proof -
  have "rev (sort_key app_created_at (filter (\<lambda>a. app_user_id a = uid) (owner_applications d))) = []
          \<longleftrightarrow> filter (\<lambda>a. app_user_id a = uid) (owner_applications d) = []"
    by (simp only: rev_is_Nil_conv sort_key_Nil_iff)
  then have e: "filter (\<lambda>a. app_user_id a = uid) (owner_applications d) = []
                  \<longleftrightarrow> rev (sort_key app_created_at
                            (filter (\<lambda>a. app_user_id a = uid) (owner_applications d))) = []"
    by (rule sym)
  show ?thesis
    unfolding e
    by (cases "rev (sort_key app_created_at
                      (filter (\<lambda>a. app_user_id a = uid) (owner_applications d)))")
       (simp_all add: checkExistingApplication_def)
qed

text \<open>
  Claim C5, as stated, fails. In the example tables the user \<open>u\<close> has one pending
  application; a submission with the four fields filled in, accepted by the store,
  reports success and leaves two pending applications of \<open>u\<close>.
\<close>

theorem submit_duplicate_counterexample:
  "pending_count ex_db ''u'' = 1
   \<and> submitApplication ex_db (Some ''u'') ex_application_form ''s'' ''t3'' None
       = (insert_owner_application ex_db ''s'' ''t3'' ''u'' ex_application_form,
          Some (toast_success ''Application submitted successfully!''))
   \<and> pending_count
        (fst (submitApplication ex_db (Some ''u'') ex_application_form ''s'' ''t3'' None)) ''u''
       = 2"
proof -
  have c: "pending_count ex_db ''u'' = 1"
    by (simp add: pending_count_def ex_db_def ex_application_def)
  have s: "submitApplication ex_db (Some ''u'') ex_application_form ''s'' ''t3'' None
       = (insert_owner_application ex_db ''s'' ''t3'' ''u'' ex_application_form,
          Some (toast_success ''Application submitted successfully!''))"
    by (simp add: submitApplication_def ex_application_form_def)
  show ?thesis
    by (simp add: s c pending_count_insert)
qed

text \<open>
  Claim C5, amended. \<^verbatim>\<open>submitApplication\<close> does not look at the applications that
  exist: for a signed-in user, with the four fields filled in and the insert accepted,
  it adds one pending application of that user and reports success, whatever the table
  holds. It changes nothing and reports no success exactly in the other cases (no
  user, an empty field, an error of the insert). What keeps a second submission away
  is the rendering: with an application loaded into the component the form is not
  shown; the query that loads it finds one whenever the user has any application, and
  yields none when the request fails.
\<close>

theorem submitApplication_inserts_unchecked:
  "(form_contact_person form \<noteq> [] \<and> form_phone form \<noteq> [] \<and> form_email form \<noteq> []
      \<and> form_justification form \<noteq> [] \<longrightarrow>
      submitApplication d (Some uid) form new_id now None
        = (insert_owner_application d new_id now uid form,
           Some (toast_success ''Application submitted successfully!''))
      \<and> pending_count (fst (submitApplication d (Some uid) form new_id now None)) uid
          = Suc (pending_count d uid))
   \<and> (usr = None \<or> form_contact_person form = [] \<or> form_phone form = []
        \<or> form_email form = [] \<or> form_justification form = [] \<or> err \<noteq> None \<longrightarrow>
        fst (submitApplication d usr form new_id now err) = d
        \<and> \<not> is_success (snd (submitApplication d usr form new_id now err)))
   \<and> (application \<noteq> None \<longrightarrow> OwnerApplicationButton usr application showForm \<noteq> apply_form)
   \<and> ((\<exists>a \<in> set (owner_applications d). app_user_id a = uid) \<longrightarrow>
        checkExistingApplication d (Some uid) None \<noteq> None)
   \<and> checkExistingApplication d usr (Some e) = None"
proof -
  have 1: "form_contact_person form \<noteq> [] \<and> form_phone form \<noteq> [] \<and> form_email form \<noteq> []
      \<and> form_justification form \<noteq> [] \<longrightarrow>
      submitApplication d (Some uid) form new_id now None
        = (insert_owner_application d new_id now uid form,
           Some (toast_success ''Application submitted successfully!''))
      \<and> pending_count (fst (submitApplication d (Some uid) form new_id now None)) uid
          = Suc (pending_count d uid)"
    by (simp add: submitApplication_def pending_count_insert)
  have 2: "usr = None \<or> form_contact_person form = [] \<or> form_phone form = []
        \<or> form_email form = [] \<or> form_justification form = [] \<or> err \<noteq> None \<longrightarrow>
        fst (submitApplication d usr form new_id now err) = d
        \<and> \<not> is_success (snd (submitApplication d usr form new_id now err))"
    by (cases usr; cases err) (simp_all add: submitApplication_def)
  have 3: "application \<noteq> None \<longrightarrow> OwnerApplicationButton usr application showForm \<noteq> apply_form"
    by (cases application) (simp_all add: OwnerApplicationButton_def)
  have 4: "(\<exists>a \<in> set (owner_applications d). app_user_id a = uid) \<longrightarrow>
        checkExistingApplication d (Some uid) None \<noteq> None"
    unfolding checkExistingApplication_None_iff by (simp add: filter_empty_conv)
  have 5: "checkExistingApplication d usr (Some e) = None"
    by (cases usr) (simp_all add: checkExistingApplication_def)
  from 1 2 3 4 5 show ?thesis by (intro conjI)
qed

theorem submitApplication_inserts_unchecked_witness:
  "pending_count ex_db ''u'' = 1
   \<and> pending_count
        (fst (submitApplication ex_db (Some ''u'') ex_application_form ''s'' ''t3'' None)) ''u''
       = 2
   \<and> checkExistingApplication ex_db (Some ''u'') None \<noteq> None
   \<and> OwnerApplicationButton (Some ''u'') (checkExistingApplication ex_db (Some ''u'') None) True
       = status_card pending
   \<and> fst (submitApplication ex_db (Some ''u'') ex_application_form ''s'' ''t3'' (Some ex_error))
       = ex_db"
proof -
  have c: "pending_count ex_db ''u'' = 1"
    by (simp add: pending_count_def ex_db_def ex_application_def)
  have a: "\<exists>a \<in> set (owner_applications ex_db). app_user_id a = ''u''"
    by (simp add: ex_db_def ex_application_def)
  have k: "checkExistingApplication ex_db (Some ''u'') None = Some (ex_application ''r'' ''u'' pending)"
    by (simp add: checkExistingApplication_def ex_db_def) (simp add: ex_application_def)
  from submitApplication_inserts_unchecked
         [of ex_application_form ex_db "''u''" "''s''" "''t3''" "Some ''u''" "Some ex_error"
             "checkExistingApplication ex_db (Some ''u'') None" True ex_error]
  show ?thesis
    using c a
    by (simp add: k OwnerApplicationButton_def submitApplication_def pending_count_insert
          ex_application_form_def ex_application_def)
qed

section \<open>Saving a zone\<close>

lemma handleSaveZone_request_Send:
  assumes "handleSaveZone_request editingZone usr zoneForm now = Send rq"
  shows "\<exists>ez uid vlat vlng.
           editingZone = Some ez \<and> usr = Some uid
           \<and> trim (zf_name zoneForm) \<noteq> []
           \<and> 1 \<le> zf_zone_number zoneForm
           \<and> 0 \<le> zf_cost_per_hour zoneForm
           \<and> 1 \<le> zf_total_slots zoneForm
           \<and> zf_lat zoneForm = Num vlat \<and> zf_lng zoneForm = Num vlng
           \<and> \<not> (vlat = 0 \<and> vlng = 0)
           \<and> rq = (case ez_zone ez of
                     Some z \<Rightarrow>
                        Update (zone_id z)
                          \<lparr>zu_name = zf_name zoneForm,
                           zu_zone_number = zf_zone_number zoneForm,
                           zu_lat = vlat, zu_lng = vlng,
                           zu_cost_per_hour = zf_cost_per_hour zoneForm,
                           zu_total_slots = zf_total_slots zoneForm,
                           zu_updated_at = now\<rparr>
                    | None \<Rightarrow>
                        Insert
                          \<lparr>zi_location_id = ez_locationId ez,
                           zi_name = zf_name zoneForm,
                           zi_zone_number = zf_zone_number zoneForm,
                           zi_lat = vlat, zi_lng = vlng,
                           zi_cost_per_hour = zf_cost_per_hour zoneForm,
                           zi_total_slots = zf_total_slots zoneForm,
                           zi_available_slots = zf_total_slots zoneForm\<rparr>)"
proof (cases editingZone)
  case None
  with assms show ?thesis by (simp add: handleSaveZone_request_def)
next
  case ez: (Some ez)
  show ?thesis
  proof (cases usr)
    case None
    with assms ez show ?thesis by (simp add: handleSaveZone_request_def)
  next
    case u: (Some uid)
    show ?thesis
    proof (cases "zf_lat zoneForm")
      case Null
      with assms ez u show ?thesis
        by (simp add: handleSaveZone_request_def isNaN_def split: if_splits)
    next
      case NaN
      with assms ez u show ?thesis
        by (simp add: handleSaveZone_request_def isNaN_def split: if_splits)
    next
      case la: (Num vlat)
      show ?thesis
      proof (cases "zf_lng zoneForm")
        case Null
        with assms ez u la show ?thesis
          by (simp add: handleSaveZone_request_def isNaN_def split: if_splits)
      next
        case NaN
        with assms ez u la show ?thesis
          by (simp add: handleSaveZone_request_def isNaN_def split: if_splits)
      next
        case lg: (Num vlng)
        from assms ez u la lg show ?thesis
          by (cases "ez_zone ez")
             (simp_all add: handleSaveZone_request_def isNaN_def split: if_splits)
      qed
    qed
  qed
qed

lemma handleSaveZone_request_missing:
  assumes "(\<forall>x. zf_lat zoneForm \<noteq> Num x) \<or> (\<forall>x. zf_lng zoneForm \<noteq> Num x)"
  shows "handleSaveZone_request (Some ez) (Some uid) zoneForm now =
           Reject (if trim (zf_name zoneForm) = [] then ''Please enter a zone name''
                   else if zf_zone_number zoneForm < 1 then ''Zone number must be at least 1''
                   else if zf_cost_per_hour zoneForm < 0 then ''Cost per hour cannot be negative''
                   else if zf_total_slots zoneForm < 1 then ''Total slots must be at least 1''
                   else ''Please provide valid latitude and longitude for the zone'')"
  using assms
  by (cases "zf_lat zoneForm"; cases "zf_lng zoneForm")
     (simp_all add: handleSaveZone_request_def isNaN_def)

lemma trim_Zone_B: "trim ''Zone B'' = ''Zone B''"
  by (simp add: trim_def is_space_def)

text \<open>
  Claim C8. When the latitude or the longitude of the form is null or NaN, the handler
  sends no request and the tables are unchanged, whatever else the form holds; with a
  zone being edited or created and a signed-in user the handler shows one of the
  validation messages, and when the name, the zone number, the price and the number of
  slots pass their checks it is the message about the coordinates.
\<close>

theorem zone_without_coordinates_rejected:
  assumes "(\<forall>x. zf_lat zoneForm \<noteq> Num x) \<or> (\<forall>x. zf_lng zoneForm \<noteq> Num x)"
  shows "handleSaveZone_request editingZone usr zoneForm now \<noteq> Send rq
       \<and> fst (handleSaveZone d editingZone usr zoneForm now dflt err) = d
       \<and> (editingZone \<noteq> None \<and> usr \<noteq> None \<longrightarrow>
            (\<exists>m \<in> set validation_messages.
               handleSaveZone_request editingZone usr zoneForm now = Reject m
               \<and> snd (handleSaveZone d editingZone usr zoneForm now dflt err)
                   = Some (toast_error m)))
       \<and> (editingZone \<noteq> None \<and> usr \<noteq> None \<and> trim (zf_name zoneForm) \<noteq> []
            \<and> 1 \<le> zf_zone_number zoneForm \<and> 0 \<le> zf_cost_per_hour zoneForm
            \<and> 1 \<le> zf_total_slots zoneForm \<longrightarrow>
            snd (handleSaveZone d editingZone usr zoneForm now dflt err)
              = Some (toast_error ''Please provide valid latitude and longitude for the zone''))"
proof (cases "editingZone \<noteq> None \<and> usr \<noteq> None")
  case False
  then have "handleSaveZone_request editingZone usr zoneForm now = Return"
    by (cases editingZone; cases usr) (simp_all add: handleSaveZone_request_def)
  with False show ?thesis by (simp add: handleSaveZone_def) blast
next
  case True
  then obtain ez uid where e: "editingZone = Some ez" and u: "usr = Some uid" by blast
  note r = handleSaveZone_request_missing [OF assms, of ez uid now]
  show ?thesis
    unfolding e u
    by (simp add: handleSaveZone_def r validation_messages_def)
qed

theorem zone_without_coordinates_rejected_witness:
  "handleSaveZone_request (Some \<lparr>ez_locationId = ''k'', ez_zone = None\<rparr>) (Some ''o'')
      (ex_form\<lparr>zf_lat := Null\<rparr>) ''t4''
     = Reject ''Please provide valid latitude and longitude for the zone''
   \<and> handleSaveZone ex_db (Some \<lparr>ez_locationId = ''k'', ez_zone = None\<rparr>) (Some ''o'')
        (ex_form\<lparr>zf_lat := Null\<rparr>) ''t4'' ex_defaults None
     = (ex_db, Some (toast_error ''Please provide valid latitude and longitude for the zone''))
   \<and> handleSaveZone ex_db (Some \<lparr>ez_locationId = ''k'', ez_zone = None\<rparr>) (Some ''o'')
        (ex_form\<lparr>zf_lng := NaN\<rparr>) ''t4'' ex_defaults None
     = (ex_db, Some (toast_error ''Please provide valid latitude and longitude for the zone''))"
proof -
  have t: "trim ''Zone B'' = ''Zone B''"
    by (simp add: trim_def is_space_def)
  have a: "(\<forall>x. zf_lat (ex_form\<lparr>zf_lat := Null\<rparr>) \<noteq> Num x)
             \<or> (\<forall>x. zf_lng (ex_form\<lparr>zf_lat := Null\<rparr>) \<noteq> Num x)" by simp
  have b: "(\<forall>x. zf_lat (ex_form\<lparr>zf_lng := NaN\<rparr>) \<noteq> Num x)
             \<or> (\<forall>x. zf_lng (ex_form\<lparr>zf_lng := NaN\<rparr>) \<noteq> Num x)" by simp
  from zone_without_coordinates_rejected [OF a,
         of "Some \<lparr>ez_locationId = ''k'', ez_zone = None\<rparr>" "Some ''o''" "''t4''" _ ex_db
            ex_defaults None]
       zone_without_coordinates_rejected [OF b,
         of "Some \<lparr>ez_locationId = ''k'', ez_zone = None\<rparr>" "Some ''o''" "''t4''" _ ex_db
            ex_defaults None]
  show ?thesis
    by (simp add: t ex_form_def handleSaveZone_def handleSaveZone_request_def isNaN_def)
qed

text \<open>
  Claim C9. When the handler sends a request for a new zone (no zone is being
  edited), the request is an insert whose \<^verbatim>\<open>available_slots\<close> equals its
  \<^verbatim>\<open>total_slots\<close>, which is the number of the form and at least 1; the row the store
  adds has the same two values, so \<open>0 \<le> available_slots \<le> total_slots\<close> holds for it.
\<close>

theorem create_zone_fully_available:
  assumes "ez_zone ez = None"
      and "handleSaveZone_request (Some ez) usr zoneForm now = Send rq"
  shows "\<exists>i. rq = Insert i
           \<and> zi_available_slots i = zi_total_slots i
           \<and> zi_total_slots i = zf_total_slots zoneForm
           \<and> 1 \<le> zi_total_slots i
           \<and> fst (handleSaveZone d (Some ez) usr zoneForm now dflt None)
               = apply_zone_request d dflt rq
           \<and> (\<exists>z. parking_zones (apply_zone_request d dflt rq) = parking_zones d @ [z]
                  \<and> zone_location_id z = ez_locationId ez
                  \<and> zone_total_slots z = zf_total_slots zoneForm
                  \<and> zone_available_slots z = zone_total_slots z
                  \<and> slots_ok z)"
proof -
  from handleSaveZone_request_Send [OF assms(2)] assms(1)
  obtain vlat vlng where
    t: "1 \<le> zf_total_slots zoneForm" and
    rq: "rq = Insert \<lparr>zi_location_id = ez_locationId ez,
                           zi_name = zf_name zoneForm,
                           zi_zone_number = zf_zone_number zoneForm,
                           zi_lat = vlat, zi_lng = vlng,
                           zi_cost_per_hour = zf_cost_per_hour zoneForm,
                           zi_total_slots = zf_total_slots zoneForm,
                           zi_available_slots = zf_total_slots zoneForm\<rparr>"
    by fastforce
  have h: "fst (handleSaveZone d (Some ez) usr zoneForm now dflt None)
               = apply_zone_request d dflt rq"
    using assms(2) by (simp add: handleSaveZone_def)
  show ?thesis
    unfolding rq [symmetric] h
    using t by (simp add: rq slots_ok_def)
qed

theorem create_zone_fully_available_witness:
  "ez_zone \<lparr>ez_locationId = ''k'', ez_zone = None\<rparr> = None
   \<and> handleSaveZone_request (Some \<lparr>ez_locationId = ''k'', ez_zone = None\<rparr>) (Some ''o'')
        ex_form ''t4''
       = Send (Insert \<lparr>zi_location_id = ''k'', zi_name = ''Zone B'', zi_zone_number = 2,
                       zi_lat = 12, zi_lng = 77, zi_cost_per_hour = 15, zi_total_slots = 10,
                       zi_available_slots = 10\<rparr>)
   \<and> parking_zones (fst (handleSaveZone ex_db (Some \<lparr>ez_locationId = ''k'', ez_zone = None\<rparr>)
                            (Some ''o'') ex_form ''t4'' ex_defaults None))
       = parking_zones ex_db @ [(ex_zone ''z'' ''k'' 2 10 10)
                                  \<lparr>zone_name := ''Zone B'', zone_created_at := ''t2'',
                                   zone_updated_at := ''t2''\<rparr>]"
proof -
  have e: "ez_zone \<lparr>ez_locationId = ''k'', ez_zone = None\<rparr> = None" by simp
  have r: "handleSaveZone_request (Some \<lparr>ez_locationId = ''k'', ez_zone = None\<rparr>) (Some ''o'')
             ex_form ''t4''
           = Send (Insert \<lparr>zi_location_id = ''k'', zi_name = ''Zone B'', zi_zone_number = 2,
                       zi_lat = 12, zi_lng = 77, zi_cost_per_hour = 15, zi_total_slots = 10,
                       zi_available_slots = 10\<rparr>)"
    by (simp add: handleSaveZone_request_def ex_form_def trim_Zone_B isNaN_def)
  from create_zone_fully_available [OF e r, of ex_db ex_defaults]
  show ?thesis
    by (simp add: r ex_defaults_def ex_zone_def)
qed

text \<open>
  Claim C4 fails on the update branch. The zone \<open>x\<close> of the example tables has 50 of
  50 slots available; saving the edit form with 10 total slots passes every check, the
  update is sent and applied, and the stored zone then has 50 available slots of 10.
\<close>

theorem update_zone_total_below_available:
  "slots_ok (ex_zone ''x'' ''k'' 1 50 50)
   \<and> handleSaveZone ex_db
        (Some \<lparr>ez_locationId = ''k'', ez_zone = Some (ex_zone ''x'' ''k'' 1 50 50)\<rparr>)
        (Some ''o'') ex_form ''t4'' ex_defaults None
       = (ex_db\<lparr>parking_zones :=
                  [(ex_zone ''x'' ''k'' 2 10 50)\<lparr>zone_name := ''Zone B'', zone_updated_at := ''t4''\<rparr>,
                   ex_zone ''y'' ''m'' 1 20 5]\<rparr>,
          Some (toast_success ''Zone updated successfully!''))
   \<and> zone_total_slots
        ((ex_zone ''x'' ''k'' 2 10 50)\<lparr>zone_name := ''Zone B'', zone_updated_at := ''t4''\<rparr>) = 10
   \<and> zone_available_slots
        ((ex_zone ''x'' ''k'' 2 10 50)\<lparr>zone_name := ''Zone B'', zone_updated_at := ''t4''\<rparr>) = 50
   \<and> \<not> slots_ok
        ((ex_zone ''x'' ''k'' 2 10 50)\<lparr>zone_name := ''Zone B'', zone_updated_at := ''t4''\<rparr>)"
proof -
  have r: "handleSaveZone_request
             (Some \<lparr>ez_locationId = ''k'', ez_zone = Some (ex_zone ''x'' ''k'' 1 50 50)\<rparr>)
             (Some ''o'') ex_form ''t4''
           = Send (Update ''x'' \<lparr>zu_name = ''Zone B'', zu_zone_number = 2, zu_lat = 12,
                                zu_lng = 77, zu_cost_per_hour = 15, zu_total_slots = 10,
                                zu_updated_at = ''t4''\<rparr>)"
    by (simp add: handleSaveZone_request_def ex_form_def trim_Zone_B isNaN_def ex_zone_def)
  show ?thesis
    by (simp add: handleSaveZone_def r slots_ok_def) (simp add: ex_db_def ex_zone_def)
qed

section \<open>Statistics of a location\<close>

lemma or0_id [simp]: "or0 x = x"
  by (simp add: or0_def)

lemma foldl_add_sum_list:
  "foldl (\<lambda>sum z. sum + f z) a xs = a + sum_list (map f xs)"
  for a :: int
  by (induction xs arbitrary: a) simp_all

lemma sum_list_insort_key:
  "sum_list (map f (insort_key k x xs)) = f x + sum_list (map f xs)"
  for f :: "'a \<Rightarrow> int"
  by (induction xs) simp_all

lemma sum_list_sort_key:
  "sum_list (map f (sort_key k xs)) = sum_list (map f xs)"
  for f :: "'a \<Rightarrow> int"
  by (induction xs) (simp_all add: sum_list_insort_key)

text \<open>
  Claim C7. For the zones of a location, \<^verbatim>\<open>totalSlots\<close> is the sum of their
  \<^verbatim>\<open>total_slots\<close>, \<^verbatim>\<open>availableSlots\<close> the sum of their \<^verbatim>\<open>available_slots\<close> (sums over the
  list, and over the set when no zone occurs twice), and \<^verbatim>\<open>occupancyPercentage\<close> is
  \<open>(totalSlots - availableSlots) / totalSlots * 100\<close> when \<^verbatim>\<open>totalSlots\<close> is positive
  and 0 otherwise. The zones kept with the statistics are the given ones, reordered.
\<close>

theorem location_stats_sums:
  "totalSlots (location_with_stats zs) = (\<Sum>z\<leftarrow>zs. zone_total_slots z)
   \<and> availableSlots (location_with_stats zs) = (\<Sum>z\<leftarrow>zs. zone_available_slots z)
   \<and> occupancyPercentage (location_with_stats zs) =
        (if totalSlots (location_with_stats zs) > 0
         then real_of_int (totalSlots (location_with_stats zs)
                            - availableSlots (location_with_stats zs))
              / real_of_int (totalSlots (location_with_stats zs)) * 100
         else 0)
   \<and> (distinct zs \<longrightarrow>
        totalSlots (location_with_stats zs) = (\<Sum>z\<in>set zs. zone_total_slots z)
        \<and> availableSlots (location_with_stats zs) = (\<Sum>z\<in>set zs. zone_available_slots z))
   \<and> set (zones (location_with_stats zs)) = set zs
   \<and> length (zones (location_with_stats zs)) = length zs"
proof -
  have t: "totalSlots (location_with_stats zs) = (\<Sum>z\<leftarrow>zs. zone_total_slots z)"
    by (simp add: location_with_stats_def Let_def foldl_add_sum_list sum_list_sort_key)
  have a: "availableSlots (location_with_stats zs) = (\<Sum>z\<leftarrow>zs. zone_available_slots z)"
    by (simp add: location_with_stats_def Let_def foldl_add_sum_list sum_list_sort_key)
  have p: "occupancyPercentage (location_with_stats zs) =
        (if totalSlots (location_with_stats zs) > 0
         then real_of_int (totalSlots (location_with_stats zs)
                            - availableSlots (location_with_stats zs))
              / real_of_int (totalSlots (location_with_stats zs)) * 100
         else 0)"
    by (simp add: location_with_stats_def Let_def)
  have d: "distinct zs \<longrightarrow>
        totalSlots (location_with_stats zs) = (\<Sum>z\<in>set zs. zone_total_slots z)
        \<and> availableSlots (location_with_stats zs) = (\<Sum>z\<in>set zs. zone_available_slots z)"
    unfolding t a by (simp add: sum_list_distinct_conv_sum_set)
  have z: "set (zones (location_with_stats zs)) = set zs"
    and l: "length (zones (location_with_stats zs)) = length zs"
    by (simp_all add: location_with_stats_def Let_def)
  from t a p d z l show ?thesis by (intro conjI)
qed

theorem location_stats_sums_witness:
  "distinct (parking_zones ex_db)
   \<and> totalSlots (location_with_stats (parking_zones ex_db)) = 70
   \<and> availableSlots (location_with_stats (parking_zones ex_db)) = 55
   \<and> occupancyPercentage (location_with_stats (parking_zones ex_db)) = 150 / 7
   \<and> occupancyPercentage (location_with_stats []) = 0"
proof -
  have d: "distinct (parking_zones ex_db)"
    by (simp add: ex_db_def ex_zone_def)
  have s: "(\<Sum>z\<leftarrow>parking_zones ex_db. zone_total_slots z) = 70"
          "(\<Sum>z\<leftarrow>parking_zones ex_db. zone_available_slots z) = 55"
    by (simp_all add: ex_db_def ex_zone_def)
  from location_stats_sums [of "parking_zones ex_db"] location_stats_sums [of "[]"]
  show ?thesis
    unfolding s using d by simp
qed

end
